theory Spec2Isabelle
  imports Complex_Main "HOL-Library.Sublist" "HOL-Library.Log_Nat"
begin

section \<open>Python primitives used by the recommendation pipeline\<close>

text \<open>
  Python floats are modelled as real numbers, without NaN or infinity. The allocation
  engine and the repricing compute with them exactly; the statements about them are
  chosen so that they do not hang on the rounding of a float operation. The lime
  requirement truncates a float product to an integer, which does hang on it, so there
  every operation is rounded to the nearest double by \<open>fl\<close> below. Strings are byte
  lists; the few non-ASCII characters of the source's literals are written as their
  UTF-8 bytes.
\<close>

datatype py_error = StopIteration | ZeroDivisionError

text \<open>\<^verbatim>\<open>next(generator)\<close> over a search: raises StopIteration when nothing is found.\<close>

definition py_next :: "'a option \<Rightarrow> py_error + 'a" where
  "py_next r = (case r of None \<Rightarrow> Inl StopIteration | Some x \<Rightarrow> Inr x)"

text \<open>
  \<^verbatim>\<open>round(x, ndigits)\<close> on a float: the nearest multiple of \<open>10 ^ - ndigits\<close>,
  a tie going to the even neighbour.
\<close>

definition round_half_even :: "real \<Rightarrow> int" where
  "round_half_even x =
     (let f = \<lfloor>x\<rfloor>; d = x - of_int f
      in if d < 1 / 2 then f
         else if 1 / 2 < d then f + 1
         else if even f then f else f + 1)"

definition py_round :: "real \<Rightarrow> nat \<Rightarrow> real" where
  "py_round x ndigits = of_int (round_half_even (x * 10 ^ ndigits)) / 10 ^ ndigits"

text \<open>\<^verbatim>\<open>int(x)\<close> on a float truncates towards zero; \<^verbatim>\<open>math.ceil\<close> is the ceiling.\<close>

definition py_int :: "real \<Rightarrow> int" where
  "py_int x = (if 0 \<le> x then \<lfloor>x\<rfloor> else \<lceil>x\<rceil>)"

definition math_ceil :: "real \<Rightarrow> int" where
  "math_ceil x = \<lceil>x\<rceil>"

text \<open>
  Rounding to the nearest IEEE 754 double, a tie going to the even significand: \<open>binade x\<close>
  is the exponent of the power of two at or below a positive \<open>x\<close>, the significand has 53
  bits, and below \<open>2 ^ - 1022\<close> the spacing stays \<open>2 ^ - 1074\<close>. Overflow (magnitudes from
  \<open>2 ^ 1024\<close> on) is not modelled.
\<close>

definition binade :: "real \<Rightarrow> int" where
  "binade x = (if 1 \<le> x then bitlen \<lfloor>x\<rfloor> - 1 else - bitlen (\<lceil>1 / x\<rceil> - 1))"

definition fl :: "real \<Rightarrow> real" where
  "fl x =
     (if x = 0 then 0
      else let e = max (binade \<bar>x\<bar> - 52) (- 1074)
           in of_int (round_half_even (x / 2 powi e)) * 2 powi e)"

text \<open>\<^verbatim>\<open>str(i)\<close> for an integer, as an f-string renders it.\<close>

definition digit_char :: "nat \<Rightarrow> char" where
  "digit_char d = ''0123456789'' ! d"

function str_nat :: "nat \<Rightarrow> string" where
  "str_nat n = (if n < 10 then [digit_char n] else str_nat (n div 10) @ [digit_char (n mod 10)])"
  by pat_completeness auto
termination
  by (relation "measure (\<lambda>n. n)") auto

declare str_nat.simps [simp del]

definition str_int :: "int \<Rightarrow> string" where
  "str_int i = (if i < 0 then CHR ''-'' # str_nat (nat (- i)) else str_nat (nat i))"

text \<open>\<^verbatim>\<open>s.startswith(p)\<close>, \<^verbatim>\<open>needle in hay\<close>, \<^verbatim>\<open>sep.join(xs)\<close>.\<close>

definition startswith :: "string \<Rightarrow> string \<Rightarrow> bool" where
  "startswith s p = prefix p s"

fun py_in :: "string \<Rightarrow> string \<Rightarrow> bool" where
  "py_in needle [] = (needle = [])"
| "py_in needle (c # cs) = (prefix needle (c # cs) \<or> py_in needle cs)"

fun join :: "string \<Rightarrow> string list \<Rightarrow> string" where
  "join sep [] = []"
| "join sep [x] = x"
| "join sep (x # y # ys) = x @ sep @ join sep (y # ys)"

text \<open>
  \<^verbatim>\<open>s.lower()\<close> on the ASCII letters, \<^verbatim>\<open>s.split('(')[0]\<close> (everything before the first
  opening parenthesis) and \<^verbatim>\<open>s.strip()\<close> (ASCII white space removed at both ends).
\<close>

definition lower_char :: "char \<Rightarrow> char" where
  "lower_char c =
     (case map_of (zip ''ABCDEFGHIJKLMNOPQRSTUVWXYZ'' ''abcdefghijklmnopqrstuvwxyz'') c of
        None \<Rightarrow> c
      | Some d \<Rightarrow> d)"

definition lower :: "string \<Rightarrow> string" where
  "lower s = map lower_char s"

definition split_first :: "char \<Rightarrow> string \<Rightarrow> string" where
  "split_first sep s = takeWhile (\<lambda>c. c \<noteq> sep) s"

definition is_space :: "char \<Rightarrow> bool" where
  "is_space c =
     (c \<in> set [CHR 0x09, CHR 0x0A, CHR 0x0B, CHR 0x0C, CHR 0x0D,
               CHR 0x1C, CHR 0x1D, CHR 0x1E, CHR 0x1F, CHR 0x20])"

definition strip :: "string \<Rightarrow> string" where
  "strip s = rev (dropWhile is_space (rev (dropWhile is_space s)))"

text \<open>
  An f-string is kept as its template: the literal pieces and the numbers to be
  formatted into it.
\<close>

datatype fpart = Lit string | Num real

type_synonym ftext = "fpart list"

section \<open>Fertilizer catalog (\<^verbatim>\<open>ml/fertilizer_engine.py\<close>)\<close>

record Fertilizer =
  name :: string
  n_percent :: real
  p_percent :: real
  k_percent :: real
  cost_per_kg :: real

text \<open>The constructor converts the percentages to fractions.\<close>

definition mk_Fertilizer :: "string \<Rightarrow> real \<Rightarrow> real \<Rightarrow> real \<Rightarrow> real \<Rightarrow> Fertilizer" where
  "mk_Fertilizer nm n p k c =
     \<lparr>name = nm, n_percent = n / 100, p_percent = p / 100, k_percent = k / 100,
      cost_per_kg = c\<rparr>"

definition FERTILIZERS :: "Fertilizer list" where
  "FERTILIZERS =
     [mk_Fertilizer ''Urea'' 46 0 0 6,
      mk_Fertilizer ''DAP (Diammonium Phosphate)'' 18 46 0 27,
      mk_Fertilizer ''MOP (Muriate of Potash)'' 0 0 60 17,
      mk_Fertilizer ''SSP (Single Super Phosphate)'' 0 16 0 8,
      mk_Fertilizer ''NPK 10-26-26'' 10 26 26 22,
      mk_Fertilizer ''NPK 12-32-16'' 12 32 16 24,
      mk_Fertilizer ''NPK 14-35-14'' 14 35 14 25,
      mk_Fertilizer ''NPK 17-17-17'' 17 17 17 20,
      mk_Fertilizer ''NPK 19-19-19'' 19 19 19 21,
      mk_Fertilizer ''NPK 20-20-0-13'' 20 20 0 18,
      mk_Fertilizer ''NPK 28-28-0'' 28 28 0 23]"

section \<open>Allocation engine (\<^verbatim>\<open>FertilizerRecommendationEngine.recommend_fertilizers\<close>)\<close>

text \<open>
  A line item is the dictionary the engine appends; the keys that only the route handler
  adds later (\<^verbatim>\<open>price_per_50kg\<close>, \<^verbatim>\<open>is_verified\<close>, \<^verbatim>\<open>note\<close>, \<^verbatim>\<open>application_stage\<close>) and
  the key the handler tests for (\<^verbatim>\<open>quantity_total\<close>) are optional fields, \<open>None\<close> when
  the key is absent. The price is a number or a text.
\<close>

datatype price_field = PriceNum int | PriceText string

record line_item =
  fertilizer :: string
  quantity_kg_per_hectare :: real
  quantity_kg_per_acre :: real
  quantity_total :: "real option"
  provides :: ftext
  cost :: real
  price_per_50kg :: "price_field option"
  is_verified :: "bool option"
  item_note :: "string option"
  application_stage :: "string option"

record fert_result =
  fertilizers :: "line_item list"
  total_cost :: real
  application_timing :: string
  application_method :: string

text \<open>The local variables of \<^verbatim>\<open>recommend_fertilizers\<close> that its three steps update.\<close>

record alloc_state =
  recommendations :: "line_item list"
  acc_total_cost :: real
  n_remaining :: real
  p_remaining :: real
  k_remaining :: real

definition P2O5 :: string where
  "P2O5 = ''P'' @ [CHR 0xE2, CHR 0x82, CHR 0x82] @ ''O'' @ [CHR 0xE2, CHR 0x82, CHR 0x85]"

definition K2O :: string where
  "K2O = ''K'' @ [CHR 0xE2, CHR 0x82, CHR 0x82] @ ''O''"

text \<open>Step 1: DAP for phosphorus; it also supplies nitrogen.\<close>

definition step_dap :: "real \<Rightarrow> alloc_state \<Rightarrow> py_error + alloc_state" where
  "step_dap field_area_hectares s =
     (if 0 < p_remaining s then
        (case py_next (find (\<lambda>f. startswith (name f) ''DAP'') FERTILIZERS) of
           Inl e \<Rightarrow> Inl e
         | Inr dap \<Rightarrow>
             if p_percent dap = 0 then Inl ZeroDivisionError
             else
               let dap_needed_kg = p_remaining s / p_percent dap;
                   n_from_dap = dap_needed_kg * n_percent dap
               in Inr (s\<lparr>recommendations := recommendations s @
                            [\<lparr>fertilizer = ''DAP (Diammonium Phosphate)'',
                              quantity_kg_per_hectare = py_round dap_needed_kg 2,
                              quantity_kg_per_acre = py_round (dap_needed_kg * 0.4047) 2,
                              quantity_total =
                                Some (py_round (dap_needed_kg * field_area_hectares) 2),
                              provides =
                                [Num (py_round n_from_dap 1), Lit '' kg N + '',
                                 Num (py_round (p_remaining s) 1), Lit ('' kg '' @ P2O5)],
                              cost = py_round (dap_needed_kg * cost_per_kg dap) 2,
                              price_per_50kg = None, is_verified = None,
                              item_note = None, application_stage = None\<rparr>],
                          acc_total_cost := acc_total_cost s + dap_needed_kg * cost_per_kg dap,
                          n_remaining := n_remaining s - n_from_dap,
                          p_remaining := 0\<rparr>))
      else Inr s)"

text \<open>Step 2: MOP for potassium.\<close>

definition step_mop :: "real \<Rightarrow> alloc_state \<Rightarrow> py_error + alloc_state" where
  "step_mop field_area_hectares s =
     (if 0 < k_remaining s then
        (case py_next (find (\<lambda>f. startswith (name f) ''MOP'') FERTILIZERS) of
           Inl e \<Rightarrow> Inl e
         | Inr mop \<Rightarrow>
             if k_percent mop = 0 then Inl ZeroDivisionError
             else
               let mop_needed_kg = k_remaining s / k_percent mop
               in Inr (s\<lparr>recommendations := recommendations s @
                            [\<lparr>fertilizer = ''MOP (Muriate of Potash)'',
                              quantity_kg_per_hectare = py_round mop_needed_kg 2,
                              quantity_kg_per_acre = py_round (mop_needed_kg * 0.4047) 2,
                              quantity_total =
                                Some (py_round (mop_needed_kg * field_area_hectares) 2),
                              provides =
                                [Num (py_round (k_remaining s) 1), Lit ('' kg '' @ K2O)],
                              cost = py_round (mop_needed_kg * cost_per_kg mop) 2,
                              price_per_50kg = None, is_verified = None,
                              item_note = None, application_stage = None\<rparr>],
                          acc_total_cost := acc_total_cost s + mop_needed_kg * cost_per_kg mop,
                          k_remaining := 0\<rparr>))
      else Inr s)"

text \<open>Step 3: Urea for the nitrogen still owed.\<close>

definition step_urea :: "real \<Rightarrow> alloc_state \<Rightarrow> py_error + alloc_state" where
  "step_urea field_area_hectares s =
     (if 0 < n_remaining s then
        (case py_next (find (\<lambda>f. name f = ''Urea'') FERTILIZERS) of
           Inl e \<Rightarrow> Inl e
         | Inr urea \<Rightarrow>
             if n_percent urea = 0 then Inl ZeroDivisionError
             else
               let urea_needed_kg = n_remaining s / n_percent urea
               in Inr (s\<lparr>recommendations := recommendations s @
                            [\<lparr>fertilizer = ''Urea'',
                              quantity_kg_per_hectare = py_round urea_needed_kg 2,
                              quantity_kg_per_acre = py_round (urea_needed_kg * 0.4047) 2,
                              quantity_total =
                                Some (py_round (urea_needed_kg * field_area_hectares) 2),
                              provides = [Num (py_round (n_remaining s) 1), Lit '' kg N''],
                              cost = py_round (urea_needed_kg * cost_per_kg urea) 2,
                              price_per_50kg = None, is_verified = None,
                              item_note = None, application_stage = None\<rparr>],
                          acc_total_cost := acc_total_cost s + urea_needed_kg * cost_per_kg urea,
                          n_remaining := 0\<rparr>))
      else Inr s)"

definition get_application_timing :: "real \<Rightarrow> real \<Rightarrow> real \<Rightarrow> string" where
  "get_application_timing n p k =
     (let timing = [];
          timing = (if 0 < p \<or> 0 < k
                    then timing @
                      [''**Basal Application** (at sowing/planting): Apply all DAP and MOP'']
                    else timing);
          timing = (if 0 < n
                    then timing @
                      [''**Basal Application** (at sowing): 25-30% of Urea'',
                       ''**First Top Dressing** (3-4 weeks after sowing): 35-40% of Urea'',
                       ''**Second Top Dressing** (6-7 weeks after sowing): 30-35% of Urea'']
                    else timing)
      in join '' | '' timing)"

definition get_application_method :: string where
  "get_application_method =
     join [CHR 0x0A]
       [''**Application Methods:**'',
        ''- **Broadcasting**: Spread fertilizer evenly before final plowing'',
        ''- **Drilling**: Place fertilizer in rows 5-7 cm deep alongside seeds'',
        ''- **Band Placement**: Apply in bands 5 cm away from plant rows'',
        ''- **Top Dressing**: Broadcast nitrogen fertilizer and irrigate immediately'',
        '''',
        ''**Important Notes:**'',
        ''- Apply fertilizers on moist soil'',
        ''- Incorporate fertilizers into soil to prevent loss'',
        ''- Avoid direct contact with seeds'',
        ''- Irrigate after top dressing to activate nutrients'']"

definition init_state :: "real \<Rightarrow> real \<Rightarrow> real \<Rightarrow> alloc_state" where
  "init_state required_n required_p required_k =
     \<lparr>recommendations = [], acc_total_cost = 0, n_remaining = required_n,
      p_remaining = required_p, k_remaining = required_k\<rparr>"

definition recommend_fertilizers ::
  "real \<Rightarrow> real \<Rightarrow> real \<Rightarrow> real \<Rightarrow> py_error + fert_result" where
  "recommend_fertilizers required_n required_p required_k field_area_hectares =
     (case step_dap field_area_hectares (init_state required_n required_p required_k) of
        Inl e \<Rightarrow> Inl e
      | Inr s1 \<Rightarrow>
          (case step_mop field_area_hectares s1 of
             Inl e \<Rightarrow> Inl e
           | Inr s2 \<Rightarrow>
               (case step_urea field_area_hectares s2 of
                  Inl e \<Rightarrow> Inl e
                | Inr s3 \<Rightarrow>
                    Inr \<lparr>fertilizers = recommendations s3,
                         total_cost = py_round (acc_total_cost s3) 2,
                         application_timing =
                           get_application_timing required_n required_p required_k,
                         application_method = get_application_method\<rparr>)))"

section \<open>Soil improvement advisor (\<^verbatim>\<open>ml/soil_improvement.py\<close>)\<close>

record SoilImprovement =
  issue :: string
  recommendation :: string
  quantity :: string
  purpose :: string

text \<open>
  The argument is a Python float: a real that is not a double stands for the double
  nearest to it, as the literal would. The subtraction and the product are float
  operations, each rounded to a double, before \<^verbatim>\<open>int()\<close> truncates.
\<close>

definition calculate_lime_requirement :: "real \<Rightarrow> int" where
  "calculate_lime_requirement ph =
     (let ph = fl ph;
          target_ph = 6.5;
          ph_increase_needed = fl (target_ph - ph)
      in if ph_increase_needed \<le> 0 then 0
         else let lime_kg = py_int (fl (ph_increase_needed * 1000))
              in min (max lime_kg 500) 3000)"

definition calculate_gypsum_requirement :: "real \<Rightarrow> int" where
  "calculate_gypsum_requirement ph =
     (if ph \<le> 7.5 then 0
      else if 8.5 < ph then 750
      else if 8.0 < ph then 500
      else 350)"

definition lime_improvement :: "int \<Rightarrow> SoilImprovement" where
  "lime_improvement lime_qty =
     \<lparr>issue = ''Acidic Soil (pH < 5.5)'',
      recommendation = ''Agricultural Lime (CaCO'' @ [CHR 0xE2, CHR 0x82, CHR 0x83] @ '')'',
      quantity = str_int lime_qty @ '' kg/ha'',
      purpose = ''Raise pH to neutral range (6.0-7.0), improve nutrient availability''\<rparr>"

definition gypsum_improvement :: "int \<Rightarrow> SoilImprovement" where
  "gypsum_improvement gypsum_qty =
     \<lparr>issue = ''Alkaline Soil (pH > 7.5)'',
      recommendation =
        ''Gypsum (CaSO'' @ [CHR 0xE2, CHR 0x82, CHR 0x84, CHR 0xC2, CHR 0xB7] @ ''2H''
          @ [CHR 0xE2, CHR 0x82, CHR 0x82] @ ''O)'',
      quantity = str_int gypsum_qty @ '' kg/ha'',
      purpose = ''Lower pH, improve phosphorus availability, reduce sodicity''\<rparr>"

definition salinity_improvement :: SoilImprovement where
  "salinity_improvement =
     \<lparr>issue = ''High Salinity (EC > 2.0 dS/m)'',
      recommendation = ''Gypsum + Leaching'',
      quantity = ''500-750 kg/ha + 7.5cm irrigation'',
      purpose = ''Displace sodium, improve soil structure, leach excess salts''\<rparr>"

definition low_organic_improvement :: SoilImprovement where
  "low_organic_improvement =
     \<lparr>issue = ''Low Organic Matter (OC < 0.5%)'',
      recommendation = ''Farmyard Manure (FYM) or Compost'',
      quantity = ''8-10 tonnes/ha'',
      purpose = ''Improve soil structure, water retention, microbial activity''\<rparr>"

definition moderate_organic_improvement :: SoilImprovement where
  "moderate_organic_improvement =
     \<lparr>issue = ''Moderate Organic Matter'',
      recommendation = ''Farmyard Manure (FYM) or Vermicompost'',
      quantity = ''5-7 tonnes/ha'',
      purpose = ''Maintain soil health, enhance nutrient cycling''\<rparr>"

definition low_phosphorus_improvement :: SoilImprovement where
  "low_phosphorus_improvement =
     \<lparr>issue = ''Very Low Phosphorus'',
      recommendation = ''Rock Phosphate or Bone Meal'',
      quantity = ''300-400 kg/ha'',
      purpose = ''Long-term P availability, especially in acidic soils''\<rparr>"

definition green_manure_improvement :: SoilImprovement where
  "green_manure_improvement =
     \<lparr>issue = ''Multiple Soil Health Issues'',
      recommendation = ''Green Manure (Dhaincha/Sunhemp)'',
      quantity = ''20-25 kg seed/ha'',
      purpose = ''Add organic matter, fix nitrogen, break pest cycles''\<rparr>"

definition maintenance_improvement :: SoilImprovement where
  "maintenance_improvement =
     \<lparr>issue = ''Soil Health Maintenance'',
      recommendation = ''Farmyard Manure (FYM)'',
      quantity = ''3-5 tonnes/ha'',
      purpose = ''Maintain optimal soil conditions, sustained productivity''\<rparr>"

text \<open>
  The rules before the green-manure rule, in the source's order. \<^verbatim>\<open>if ec and ec > 2.0\<close>
  is false for a missing and for a zero \<^verbatim>\<open>ec\<close>. The arguments \<^verbatim>\<open>nitrogen\<close> and
  \<^verbatim>\<open>potassium\<close> are accepted and never read.
\<close>

definition threshold_rules ::
  "real \<Rightarrow> real option \<Rightarrow> real option \<Rightarrow> real option \<Rightarrow> SoilImprovement list" where
  "threshold_rules ph ec organic_carbon phosphorus =
     (let improvements = [];
          improvements =
            (if ph < 5.5
             then improvements @ [lime_improvement (calculate_lime_requirement ph)]
             else if 7.5 < ph
             then improvements @ [gypsum_improvement (calculate_gypsum_requirement ph)]
             else improvements);
          improvements =
            (if (case ec of None \<Rightarrow> False | Some e \<Rightarrow> e \<noteq> 0 \<and> 2.0 < e)
             then improvements @ [salinity_improvement]
             else improvements);
          improvements =
            (if (case organic_carbon of None \<Rightarrow> False | Some oc \<Rightarrow> oc < 0.5)
             then improvements @ [low_organic_improvement]
             else if (case organic_carbon of None \<Rightarrow> False
                      | Some oc \<Rightarrow> 0.5 \<le> oc \<and> oc < 0.75)
             then improvements @ [moderate_organic_improvement]
             else improvements);
          improvements =
            (if (case phosphorus of None \<Rightarrow> False | Some ph_val \<Rightarrow> ph_val < 10)
             then improvements @ [low_phosphorus_improvement]
             else improvements)
      in improvements)"

definition get_soil_improvements ::
  "real \<Rightarrow> real option \<Rightarrow> real option \<Rightarrow> real option \<Rightarrow> real option \<Rightarrow> real option
     \<Rightarrow> SoilImprovement list" where
  "get_soil_improvements ph ec organic_carbon nitrogen phosphorus potassium =
     (let improvements = threshold_rules ph ec organic_carbon phosphorus;
          improvements =
            (if 2 \<le> length improvements
             then improvements @ [green_manure_improvement]
             else improvements);
          improvements =
            (if improvements = []
             then improvements @ [maintenance_improvement]
             else improvements)
      in improvements)"

section \<open>Crop application schedules (\<^verbatim>\<open>ml/crop_schedules.py\<close>)\<close>

record ApplicationStage =
  stage :: string
  time :: string
  stage_fertilizer :: string
  quantity_percent :: real
  stage_note :: string

definition get_rice_schedule :: "ApplicationStage list" where
  "get_rice_schedule =
     [\<lparr>stage = ''Basal (At transplanting)'', time = ''Day 0'',
       stage_fertilizer = ''DAP + MOP'', quantity_percent = 100,
       stage_note = ''Apply 1 day before transplanting''\<rparr>,
      \<lparr>stage = ''First Top Dressing'', time = ''20-25 days after transplanting'',
       stage_fertilizer = ''Urea'', quantity_percent = 50,
       stage_note = ''Apply during active tillering stage''\<rparr>,
      \<lparr>stage = ''Second Top Dressing'', time = ''40-45 days after transplanting'',
       stage_fertilizer = ''Urea'', quantity_percent = 50,
       stage_note = ''Apply before panicle initiation''\<rparr>]"

definition get_wheat_schedule :: "ApplicationStage list" where
  "get_wheat_schedule =
     [\<lparr>stage = ''Basal (At sowing)'', time = ''Day 0'',
       stage_fertilizer = ''DAP + MOP + Urea (33%)'', quantity_percent = 33,
       stage_note = ''Apply with seed drill or broadcast before sowing''\<rparr>,
      \<lparr>stage = ''Crown Root Initiation'', time = ''21 days after sowing'',
       stage_fertilizer = ''Urea'', quantity_percent = 33,
       stage_note = ''First irrigation + fertilizer application''\<rparr>,
      \<lparr>stage = ''Late Jointing/Booting'', time = ''40-45 days after sowing'',
       stage_fertilizer = ''Urea'', quantity_percent = 34,
       stage_note = ''Second irrigation + final N application''\<rparr>]"

definition get_maize_schedule :: "ApplicationStage list" where
  "get_maize_schedule =
     [\<lparr>stage = ''Basal (At sowing)'', time = ''Day 0'',
       stage_fertilizer = ''DAP + MOP'', quantity_percent = 100,
       stage_note = ''Apply 5-7cm below and beside seed''\<rparr>,
      \<lparr>stage = ''Knee-High Stage'', time = ''25-30 days after sowing'',
       stage_fertilizer = ''Urea'', quantity_percent = 50,
       stage_note = ''Side dress before first irrigation''\<rparr>,
      \<lparr>stage = ''Pre-Tasseling'', time = ''45-50 days after sowing'',
       stage_fertilizer = ''Urea'', quantity_percent = 50,
       stage_note = ''Apply before flowering for good cob development''\<rparr>]"

definition get_cotton_schedule :: "ApplicationStage list" where
  "get_cotton_schedule =
     [\<lparr>stage = ''Basal (At sowing)'', time = ''Day 0'',
       stage_fertilizer = ''DAP + MOP + Urea (25%)'', quantity_percent = 25,
       stage_note = ''Apply in furrows before sowing''\<rparr>,
      \<lparr>stage = ''Square Formation'', time = ''30-35 days after sowing'',
       stage_fertilizer = ''Urea'', quantity_percent = 37.5,
       stage_note = ''Apply with first irrigation''\<rparr>,
      \<lparr>stage = ''Flowering Stage'', time = ''60-65 days after sowing'',
       stage_fertilizer = ''Urea'', quantity_percent = 37.5,
       stage_note = ''Apply during peak flowering''\<rparr>]"

definition get_sugarcane_schedule :: "ApplicationStage list" where
  "get_sugarcane_schedule =
     [\<lparr>stage = ''Basal (At planting)'', time = ''Day 0'',
       stage_fertilizer = ''DAP + MOP'', quantity_percent = 100,
       stage_note = ''Apply in furrows, mix with soil''\<rparr>,
      \<lparr>stage = ''Tillering Stage'', time = ''30-40 days after planting'',
       stage_fertilizer = ''Urea'', quantity_percent = 50,
       stage_note = ''Apply and earthing up''\<rparr>,
      \<lparr>stage = ''Grand Growth'', time = ''90-120 days after planting'',
       stage_fertilizer = ''Urea'', quantity_percent = 50,
       stage_note = ''Apply before rapid cane elongation''\<rparr>]"

definition get_potato_schedule :: "ApplicationStage list" where
  "get_potato_schedule =
     [\<lparr>stage = ''Basal (At planting)'', time = ''Day 0'',
       stage_fertilizer = ''DAP + MOP + Urea (33%)'', quantity_percent = 33,
       stage_note = ''Apply in furrows, cover with soil''\<rparr>,
      \<lparr>stage = ''Earthing Up'', time = ''25-30 days after planting'',
       stage_fertilizer = ''Urea'', quantity_percent = 33,
       stage_note = ''Apply and earth up ridges''\<rparr>,
      \<lparr>stage = ''Tuber Bulking'', time = ''45-50 days after planting'',
       stage_fertilizer = ''Urea + MOP'', quantity_percent = 34,
       stage_note = ''Final application for tuber development''\<rparr>]"

definition get_tomato_schedule :: "ApplicationStage list" where
  "get_tomato_schedule =
     [\<lparr>stage = ''Basal (Before transplanting)'', time = ''Day -1'',
       stage_fertilizer = ''DAP + MOP'', quantity_percent = 100,
       stage_note = ''Apply and incorporate into beds''\<rparr>,
      \<lparr>stage = ''Vegetative Growth'', time = ''15-20 days after transplanting'',
       stage_fertilizer = ''Urea'', quantity_percent = 33,
       stage_note = ''Apply around plants, avoid stem contact''\<rparr>,
      \<lparr>stage = ''Flowering & Fruiting'', time = ''35-40 days after transplanting'',
       stage_fertilizer = ''Urea'', quantity_percent = 67,
       stage_note = ''Split into 2 applications during fruit development''\<rparr>]"

definition get_default_schedule :: "ApplicationStage list" where
  "get_default_schedule =
     [\<lparr>stage = ''Basal (At sowing/planting)'', time = ''Day 0'',
       stage_fertilizer = ''DAP + MOP'', quantity_percent = 100,
       stage_note = ''Apply before or at planting''\<rparr>,
      \<lparr>stage = ''First Top Dressing'', time = ''3-4 weeks after planting'',
       stage_fertilizer = ''Urea'', quantity_percent = 50,
       stage_note = ''Apply during active vegetative growth''\<rparr>,
      \<lparr>stage = ''Second Top Dressing'', time = ''6-7 weeks after planting'',
       stage_fertilizer = ''Urea'', quantity_percent = 50,
       stage_note = ''Apply before flowering/fruiting''\<rparr>]"

definition get_application_schedule ::
  "string \<Rightarrow> real \<Rightarrow> real \<Rightarrow> real \<Rightarrow> ApplicationStage list" where
  "get_application_schedule crop_name total_n total_p total_k =
     (let crop_lower = lower crop_name
      in if py_in ''rice'' crop_lower \<or> py_in ''paddy'' crop_lower then get_rice_schedule
         else if py_in ''wheat'' crop_lower then get_wheat_schedule
         else if py_in ''maize'' crop_lower \<or> py_in ''corn'' crop_lower then get_maize_schedule
         else if py_in ''cotton'' crop_lower then get_cotton_schedule
         else if py_in ''sugarcane'' crop_lower then get_sugarcane_schedule
         else if py_in ''potato'' crop_lower then get_potato_schedule
         else if py_in ''tomato'' crop_lower then get_tomato_schedule
         else get_default_schedule)"

section \<open>Verified prices (\<^verbatim>\<open>ml/fertilizer_prices.py\<close>)\<close>

record price_entry =
  entry_price_per_50kg :: int
  npk_composition :: string
  nitrogen_percent :: int
  phosphorus_percent :: int
  potassium_percent :: int

definition FERTILIZER_PRICES_INR :: "(string \<times> price_entry) list" where
  "FERTILIZER_PRICES_INR =
     [(''Urea'', \<lparr>entry_price_per_50kg = 266, npk_composition = ''46-0-0'',
         nitrogen_percent = 46, phosphorus_percent = 0, potassium_percent = 0\<rparr>),
      (''DAP'', \<lparr>entry_price_per_50kg = 1350, npk_composition = ''18-46-0'',
         nitrogen_percent = 18, phosphorus_percent = 46, potassium_percent = 0\<rparr>),
      (''MOP'', \<lparr>entry_price_per_50kg = 1700, npk_composition = ''0-0-60'',
         nitrogen_percent = 0, phosphorus_percent = 0, potassium_percent = 60\<rparr>),
      (''NPK 10:26:26'', \<lparr>entry_price_per_50kg = 1450, npk_composition = ''10-26-26'',
         nitrogen_percent = 10, phosphorus_percent = 26, potassium_percent = 26\<rparr>),
      (''NPK 12:32:16'', \<lparr>entry_price_per_50kg = 1500, npk_composition = ''12-32-16'',
         nitrogen_percent = 12, phosphorus_percent = 32, potassium_percent = 16\<rparr>),
      (''NPK 17:17:17'', \<lparr>entry_price_per_50kg = 1425, npk_composition = ''17-17-17'',
         nitrogen_percent = 17, phosphorus_percent = 17, potassium_percent = 17\<rparr>),
      (''NPK 20:20:0:13'', \<lparr>entry_price_per_50kg = 1200, npk_composition = ''20-20-0-13'',
         nitrogen_percent = 20, phosphorus_percent = 20, potassium_percent = 0\<rparr>),
      (''SSP'', \<lparr>entry_price_per_50kg = 450, npk_composition = ''0-16-0'',
         nitrogen_percent = 0, phosphorus_percent = 16, potassium_percent = 0\<rparr>)]"

section \<open>Repricing and biofertilizer (\<^verbatim>\<open>routes/recommendations.py\<close>, lines 141 to 185)\<close>

text \<open>The base name: \<^verbatim>\<open>fert['fertilizer'].split('(')[0].strip()\<close>.\<close>

definition base_name :: "string \<Rightarrow> string" where
  "base_name display = strip (split_first CHR ''('' display)"

text \<open>
  The body of the repricing loop: it rewrites the item in place and adds the cost of a
  priced item to the running total.
\<close>

definition reprice_item :: "real \<Rightarrow> line_item \<Rightarrow> real \<Rightarrow> line_item \<times> real" where
  "reprice_item field_area fert recalculated_total_cost =
     (let fert_name = base_name (fertilizer fert);
          qty_total = (case quantity_total fert of
                         None \<Rightarrow> quantity_kg_per_hectare fert * field_area
                       | Some q \<Rightarrow> q);
          fert = fert\<lparr>quantity_total := Some qty_total\<rparr>;
          bags_required = math_ceil (qty_total / 50)
      in case map_of FERTILIZER_PRICES_INR fert_name of
           Some entry \<Rightarrow>
             let price = entry_price_per_50kg entry;
                 fert = fert\<lparr>price_per_50kg := Some (PriceNum price),
                             cost := of_int (bags_required * price),
                             is_verified := Some True\<rparr>
             in (fert, recalculated_total_cost + cost fert)
         | None \<Rightarrow>
             (fert\<lparr>price_per_50kg := Some (PriceText ''Govt. price not available''),
                   cost := 0,
                   is_verified := Some False,
                   item_note := Some ''Price not verified by Govt of India''\<rparr>,
              recalculated_total_cost))"

fun reprice_loop :: "real \<Rightarrow> line_item list \<Rightarrow> real \<Rightarrow> line_item list \<times> real" where
  "reprice_loop field_area [] recalculated_total_cost = ([], recalculated_total_cost)"
| "reprice_loop field_area (fert # rest) recalculated_total_cost =
     (case reprice_item field_area fert recalculated_total_cost of
        (fert', total') \<Rightarrow>
          (case reprice_loop field_area rest total' of
             (rest', total'') \<Rightarrow> (fert' # rest', total'')))"

definition biofertilizer_item :: "real \<Rightarrow> line_item" where
  "biofertilizer_item field_area =
     (let bio_qty_total = 2.0 * field_area
      in \<lparr>fertilizer = ''Biofertilizer (Rhizobium/Azotobacter)'',
          quantity_kg_per_hectare = 2.0,
          quantity_kg_per_acre = 0.81,
          quantity_total = Some bio_qty_total,
          provides = [Lit ''Nitrogen fixing, Organic carbon boost''],
          cost = 0,
          price_per_50kg = Some (PriceText ''Govt. price not available''),
          is_verified = Some False,
          item_note = None,
          application_stage = Some ''Seed Treatment''\<rparr>)"

text \<open>
  The handler from the repricing loop to the update of the total: the result is the
  recommendation dictionary after these lines and the flag \<^verbatim>\<open>biofertilizer_needed\<close>.
\<close>

definition reprice_and_biofertilizer ::
  "fert_result \<Rightarrow> real \<Rightarrow> real option \<Rightarrow> fert_result \<times> bool" where
  "reprice_and_biofertilizer fertilizer_recommendations field_area organic_carbon =
     (case reprice_loop field_area (fertilizers fertilizer_recommendations) 0 of
        (ferts, recalculated_total_cost) \<Rightarrow>
          let biofertilizer_needed =
                (case organic_carbon of None \<Rightarrow> False | Some oc \<Rightarrow> oc < 0.75);
              ferts = (if biofertilizer_needed
                       then ferts @ [biofertilizer_item field_area]
                       else ferts)
          in (fertilizer_recommendations
                \<lparr>fertilizers := ferts, total_cost := recalculated_total_cost\<rparr>,
              biofertilizer_needed))"

text \<open>
  The engine call of the handler (lines 72 to 77) followed by the lines above, for given
  nutrient targets, field area and organic carbon.
\<close>

definition generate_recommendation_fertilizers ::
  "real \<Rightarrow> real \<Rightarrow> real \<Rightarrow> real \<Rightarrow> real option \<Rightarrow> py_error + (fert_result \<times> bool)" where
  "generate_recommendation_fertilizers required_n required_p required_k field_area
       organic_carbon =
     (case recommend_fertilizers required_n required_p required_k field_area of
        Inl e \<Rightarrow> Inl e
      | Inr fertilizer_recommendations \<Rightarrow>
          Inr (reprice_and_biofertilizer fertilizer_recommendations field_area
                 organic_carbon))"

section \<open>Example line items\<close>

text \<open>
  The DAP item of scenario A as the engine emits it, and an item whose name is not in the
  price table (scenario F).
\<close>

definition example_dap_item :: line_item where
  "example_dap_item =
     \<lparr>fertilizer = ''DAP (Diammonium Phosphate)'',
      quantity_kg_per_hectare = 130.43, quantity_kg_per_acre = 52.79,
      quantity_total = Some 130.43,
      provides = [Num 23.5, Lit '' kg N + '', Num 60, Lit ('' kg '' @ P2O5)],
      cost = 3521.74, price_per_50kg = None, is_verified = None,
      item_note = None, application_stage = None\<rparr>"

definition scenario_F_item :: line_item where
  "scenario_F_item =
     \<lparr>fertilizer = ''NPK 29-5-5'',
      quantity_kg_per_hectare = 100, quantity_kg_per_acre = 40.47,
      quantity_total = Some 100,
      provides = [Num 29, Lit '' kg N''],
      cost = 2000, price_per_50kg = None, is_verified = None,
      item_note = None, application_stage = None\<rparr>"

section \<open>The allocation engine never raises; what each step appends\<close>

lemma find_dap:
  "find (\<lambda>f. startswith (name f) ''DAP'') FERTILIZERS
     = Some (mk_Fertilizer ''DAP (Diammonium Phosphate)'' 18 46 0 27)"
  by (simp add: FERTILIZERS_def mk_Fertilizer_def startswith_def)

lemma find_mop:
  "find (\<lambda>f. startswith (name f) ''MOP'') FERTILIZERS
     = Some (mk_Fertilizer ''MOP (Muriate of Potash)'' 0 0 60 17)"
  by (simp add: FERTILIZERS_def mk_Fertilizer_def startswith_def)

lemma find_urea:
  "find (\<lambda>f. name f = ''Urea'') FERTILIZERS = Some (mk_Fertilizer ''Urea'' 46 0 0 6)"
  by (simp add: FERTILIZERS_def mk_Fertilizer_def)



lemma step_dap_skip: "\<not> 0 < p_remaining s \<Longrightarrow> step_dap a s = Inr s"
  by (simp add: step_dap_def)

lemma step_dap_run:
  "0 < p_remaining s \<Longrightarrow>
     \<exists>it. step_dap a s =
            Inr (s\<lparr>recommendations := recommendations s @ [it],
                   acc_total_cost := acc_total_cost s + p_remaining s / (46 / 100) * 27,
                   n_remaining := n_remaining s - p_remaining s / (46 / 100) * (18 / 100),
                   p_remaining := 0\<rparr>)
        \<and> fertilizer it = ''DAP (Diammonium Phosphate)''
        \<and> quantity_kg_per_hectare it = py_round (p_remaining s / (46 / 100)) 2
        \<and> quantity_kg_per_acre it = py_round (p_remaining s / (46 / 100) * 0.4047) 2
        \<and> quantity_total it = Some (py_round (p_remaining s / (46 / 100) * a) 2)"
  apply (simp add: step_dap_def find_dap py_next_def mk_Fertilizer_def Let_def)
  apply (rule exI, intro conjI, rule refl)
     apply simp_all
  done

lemma step_mop_skip: "\<not> 0 < k_remaining s \<Longrightarrow> step_mop a s = Inr s"
  by (simp add: step_mop_def)

lemma step_mop_run:
  "0 < k_remaining s \<Longrightarrow>
     \<exists>it. step_mop a s =
            Inr (s\<lparr>recommendations := recommendations s @ [it],
                   acc_total_cost := acc_total_cost s + k_remaining s / (60 / 100) * 17,
                   k_remaining := 0\<rparr>)
        \<and> fertilizer it = ''MOP (Muriate of Potash)''
        \<and> quantity_kg_per_hectare it = py_round (k_remaining s / (60 / 100)) 2
        \<and> quantity_kg_per_acre it = py_round (k_remaining s / (60 / 100) * 0.4047) 2
        \<and> quantity_total it = Some (py_round (k_remaining s / (60 / 100) * a) 2)"
  apply (simp add: step_mop_def find_mop py_next_def mk_Fertilizer_def Let_def)
  apply (rule exI, intro conjI, rule refl)
     apply simp_all
  done

lemma step_urea_skip: "\<not> 0 < n_remaining s \<Longrightarrow> step_urea a s = Inr s"
  by (simp add: step_urea_def)

lemma step_urea_run:
  "0 < n_remaining s \<Longrightarrow>
     \<exists>it. step_urea a s =
            Inr (s\<lparr>recommendations := recommendations s @ [it],
                   acc_total_cost := acc_total_cost s + n_remaining s / (46 / 100) * 6,
                   n_remaining := 0\<rparr>)
        \<and> fertilizer it = ''Urea''
        \<and> quantity_kg_per_hectare it = py_round (n_remaining s / (46 / 100)) 2
        \<and> quantity_kg_per_acre it = py_round (n_remaining s / (46 / 100) * 0.4047) 2
        \<and> quantity_total it = Some (py_round (n_remaining s / (46 / 100) * a) 2)"
  apply (simp add: step_urea_def find_urea py_next_def mk_Fertilizer_def Let_def)
  apply (rule exI, intro conjI, rule refl)
     apply simp_all
  done

text \<open>The nitrogen still owed after step 1, as a function of the inputs.\<close>

lemma step_dap_n_remaining:
  "\<exists>s1. step_dap a (init_state n p k) = Inr s1
     \<and> n_remaining s1 = (if 0 < p then n - p / (46 / 100) * (18 / 100) else n)
     \<and> k_remaining s1 = k
     \<and> map fertilizer (recommendations s1)
         = (if 0 < p then [''DAP (Diammonium Phosphate)''] else [])"
proof (cases "0 < p")
  case True
  then have "0 < p_remaining (init_state n p k)" by (simp add: init_state_def)
  from step_dap_run [OF this, of a] show ?thesis
    using True by (auto simp add: init_state_def)
next
  case False
  then have "\<not> 0 < p_remaining (init_state n p k)" by (simp add: init_state_def)
  from step_dap_skip [OF this, of a] show ?thesis
    using False by (simp add: init_state_def)
qed

lemma step_mop_names:
  "\<exists>s2. step_mop a s1 = Inr s2
     \<and> n_remaining s2 = n_remaining s1
     \<and> map fertilizer (recommendations s2)
         = map fertilizer (recommendations s1)
             @ (if 0 < k_remaining s1 then [''MOP (Muriate of Potash)''] else [])"
proof (cases "0 < k_remaining s1")
  case True
  from step_mop_run [OF this, of a] show ?thesis using True by auto
next
  case False
  from step_mop_skip [OF this, of a] show ?thesis using False by simp
qed

lemma step_urea_names:
  "\<exists>s3. step_urea a s2 = Inr s3
     \<and> map fertilizer (recommendations s3)
         = map fertilizer (recommendations s2)
             @ (if 0 < n_remaining s2 then [''Urea''] else [])"
proof (cases "0 < n_remaining s2")
  case True
  from step_urea_run [OF this, of a] show ?thesis using True by auto
next
  case False
  from step_urea_skip [OF this, of a] show ?thesis using False by simp
qed

lemma recommend_fertilizers_names:
  "\<exists>r s1. recommend_fertilizers n p k a = Inr r
     \<and> step_dap a (init_state n p k) = Inr s1
     \<and> n_remaining s1 = (if 0 < p then n - p / (46 / 100) * (18 / 100) else n)
     \<and> map fertilizer (fertilizers r)
         = (if 0 < p then [''DAP (Diammonium Phosphate)''] else [])
           @ (if 0 < k then [''MOP (Muriate of Potash)''] else [])
           @ (if 0 < n_remaining s1 then [''Urea''] else [])"
proof -
  obtain s1 where s1: "step_dap a (init_state n p k) = Inr s1"
      "n_remaining s1 = (if 0 < p then n - p / (46 / 100) * (18 / 100) else n)"
      "k_remaining s1 = k"
      "map fertilizer (recommendations s1)
         = (if 0 < p then [''DAP (Diammonium Phosphate)''] else [])"
    using step_dap_n_remaining [of a n p k] by blast
  obtain s2 where s2: "step_mop a s1 = Inr s2" "n_remaining s2 = n_remaining s1"
      "map fertilizer (recommendations s2)
         = map fertilizer (recommendations s1)
             @ (if 0 < k_remaining s1 then [''MOP (Muriate of Potash)''] else [])"
    using step_mop_names [of a s1] by blast
  obtain s3 where s3: "step_urea a s2 = Inr s3"
      "map fertilizer (recommendations s3)
         = map fertilizer (recommendations s2)
             @ (if 0 < n_remaining s2 then [''Urea''] else [])"
    using step_urea_names [of a s2] by blast
  have "recommend_fertilizers n p k a =
          Inr \<lparr>fertilizers = recommendations s3,
               total_cost = py_round (acc_total_cost s3) 2,
               application_timing = get_application_timing n p k,
               application_method = get_application_method\<rparr>"
    by (simp add: recommend_fertilizers_def s1(1) s2(1) s3(1))
  then show ?thesis
    using s1 s2 s3 by simp
qed

text \<open>Rounding is stable away from the ties.\<close>

lemma round_half_even_near:
  assumes "of_int m - 1 / 2 < y" and "y < of_int m + 1 / 2"
  shows "round_half_even y = m"
proof -
  have lo: "m - 1 \<le> \<lfloor>y\<rfloor>" using assms(1) by (simp add: le_floor_iff)
  have hi: "\<lfloor>y\<rfloor> \<le> m" using assms(2) by (simp add: floor_le_iff)
  then consider "\<lfloor>y\<rfloor> = m" | "\<lfloor>y\<rfloor> = m - 1" using lo by linarith
  then show ?thesis
  proof cases
    case 1
    then show ?thesis using assms by (simp add: round_half_even_def Let_def)
  next
    case 2
    then show ?thesis using assms by (simp add: round_half_even_def Let_def)
  qed
qed

lemma py_round_near:
  assumes "of_int m - 1 / 2 < x * 10 ^ d" and "x * 10 ^ d < of_int m + 1 / 2"
  shows "py_round x d = of_int m / 10 ^ d"
  using round_half_even_near [OF assms] by (simp add: py_round_def)


section \<open>Claims about the allocation engine\<close>

text \<open>
  C1 (scenario A). For \<open>required_n = 120\<close>, \<open>required_p = 60\<close>, \<open>required_k = 30\<close> and a field
  of one hectare the engine returns normally with exactly three line items, in the order
  DAP, MOP, Urea. Their per-hectare quantities, rounded to two decimals, are 130.43
  (that is 60 / 0.46), 50 (that is 30 / 0.60) and 209.83, the last computed from the
  unrounded nitrogen still owed after the DAP step, \<open>120 - 60 / 0.46 * 0.18\<close>, which is
  about 96.52; the nitrogen DAP contributes is about 23.48.
\<close>

theorem C1_scenario_A_allocation:
  "\<exists>r s1. recommend_fertilizers 120 60 30 1 = Inr r
     \<and> step_dap 1 (init_state 120 60 30) = Inr s1
     \<and> map fertilizer (fertilizers r)
         = [''DAP (Diammonium Phosphate)'', ''MOP (Muriate of Potash)'', ''Urea'']
     \<and> map quantity_kg_per_hectare (fertilizers r) = [130.43, 50, 209.83]
     \<and> py_round (60 / 0.46) 2 = 130.43
     \<and> py_round (30 / 0.60) 2 = 50
     \<and> n_remaining s1 = 120 - 60 / 0.46 * 0.18
     \<and> py_round ((120 - 60 / 0.46 * 0.18) / 0.46) 2 = 209.83
     \<and> py_round (n_remaining s1) 2 = 96.52
     \<and> py_round (120 - n_remaining s1) 2 = 23.48"
  by (simp add: recommend_fertilizers_def init_state_def step_dap_def step_mop_def
        step_urea_def find_dap find_mop find_urea py_next_def mk_Fertilizer_def Let_def
        py_round_def round_half_even_def)

text \<open>
  The three rounded quantities of scenario A do not hang on the last digits of the unrounded
  ones: any value within 0.0001 of each rounds to the same two decimals, and the rounding
  error of double-precision arithmetic on these magnitudes is far smaller.
\<close>

lemma scenario_A_rounding_margin:
  assumes "\<bar>e\<bar> \<le> 1 / 10000"
  shows "py_round (60 / 0.46 + e) 2 = 130.43"
    and "py_round (30 / 0.60 + e) 2 = 50"
    and "py_round ((120 - 60 / 0.46 * 0.18) / 0.46 + e) 2 = 209.83"
proof -
  have b: "- (1 / 10000) \<le> e" "e \<le> 1 / 10000"
    using assms by (simp_all add: abs_le_iff)
  have "py_round (60 / 0.46 + e) 2 = of_int 13043 / 10 ^ 2"
    by (rule py_round_near) (use b in \<open>simp_all add: field_simps\<close>)
  then show "py_round (60 / 0.46 + e) 2 = 130.43"
    by simp
  have "py_round (30 / 0.60 + e) 2 = of_int 5000 / 10 ^ 2"
    by (rule py_round_near) (use b in \<open>simp_all add: field_simps\<close>)
  then show "py_round (30 / 0.60 + e) 2 = 50"
    by simp
  have "py_round ((120 - 60 / 0.46 * 0.18) / 0.46 + e) 2 = of_int 20983 / 10 ^ 2"
    by (rule py_round_near) (use b in \<open>simp_all add: field_simps\<close>)
  then show "py_round ((120 - 60 / 0.46 * 0.18) / 0.46 + e) 2 = 209.83"
    by simp
qed






section \<open>The repricing loop: items and total\<close>

lemma reprice_item_fst_indep:
  "fst (reprice_item a f t) = fst (reprice_item a f 0)"
  by (simp add: reprice_item_def Let_def split: option.splits)

lemma reprice_item_total:
  "snd (reprice_item a f t)
     = t + (if is_verified (fst (reprice_item a f 0)) = Some True
            then cost (fst (reprice_item a f 0)) else 0)"
  by (simp add: reprice_item_def Let_def split: option.splits)

lemma reprice_loop_items:
  "fst (reprice_loop a fs t) = map (\<lambda>f. fst (reprice_item a f 0)) fs"
proof (induction fs arbitrary: t)
  case Nil
  show ?case by simp
next
  case (Cons f fs)
  have "fst (reprice_item a f t) = fst (reprice_item a f 0)"
    by (rule reprice_item_fst_indep)
  then show ?case
    using Cons.IH by (simp split: prod.splits) (metis fst_conv)
qed

lemma reprice_loop_total:
  "snd (reprice_loop a fs t)
     = t + sum_list (map cost (filter (\<lambda>it. is_verified it = Some True)
                                 (fst (reprice_loop a fs t))))"
proof (induction fs arbitrary: t)
  case Nil
  show ?case by simp
next
  case (Cons f fs)
  obtain f' t' where b: "reprice_item a f t = (f', t')" by (cases "reprice_item a f t")
  obtain fs' t'' where l: "reprice_loop a fs t' = (fs', t'')" by (cases "reprice_loop a fs t'")
  have f': "f' = fst (reprice_item a f 0)"
    using reprice_item_fst_indep [of a f t] b by simp
  have t': "t' = t + (if is_verified f' = Some True then cost f' else 0)"
    using reprice_item_total [of a f t] b f' by simp
  have "t'' = t' + sum_list (map cost (filter (\<lambda>it. is_verified it = Some True) fs'))"
    using Cons.IH [of t'] l by simp
  then show ?case
    using b l t' by simp
qed

lemma reprice_item_found:
  assumes "map_of FERTILIZER_PRICES_INR (base_name (fertilizer f)) = Some entry"
  shows "fst (reprice_item a f t) =
           f\<lparr>quantity_total :=
                Some (case quantity_total f of
                        None \<Rightarrow> quantity_kg_per_hectare f * a | Some q \<Rightarrow> q),
             price_per_50kg := Some (PriceNum (entry_price_per_50kg entry)),
             cost := of_int (\<lceil>(case quantity_total f of
                                 None \<Rightarrow> quantity_kg_per_hectare f * a | Some q \<Rightarrow> q) / 50\<rceil>
                             * entry_price_per_50kg entry),
             is_verified := Some True\<rparr>"
  using assms by (simp add: reprice_item_def Let_def math_ceil_def)

lemma reprice_item_not_found:
  assumes "map_of FERTILIZER_PRICES_INR (base_name (fertilizer f)) = None"
  shows "fst (reprice_item a f t) =
           f\<lparr>quantity_total :=
                Some (case quantity_total f of
                        None \<Rightarrow> quantity_kg_per_hectare f * a | Some q \<Rightarrow> q),
             price_per_50kg := Some (PriceText ''Govt. price not available''),
             cost := 0,
             is_verified := Some False,
             item_note := Some ''Price not verified by Govt of India''\<rparr>"
  using assms by (simp add: reprice_item_def Let_def)

lemma base_name_dap: "base_name ''DAP (Diammonium Phosphate)'' = ''DAP''"
  by (simp add: base_name_def split_first_def strip_def is_space_def)

lemma base_name_mop: "base_name ''MOP (Muriate of Potash)'' = ''MOP''"
  by (simp add: base_name_def split_first_def strip_def is_space_def)

lemma base_name_urea: "base_name ''Urea'' = ''Urea''"
  by (simp add: base_name_def split_first_def strip_def is_space_def)

lemma base_name_scenario_F: "base_name ''NPK 29-5-5'' = ''NPK 29-5-5''"
  by (simp add: base_name_def split_first_def strip_def is_space_def)

lemma reprice_item_fertilizer: "fertilizer (fst (reprice_item a f t)) = fertilizer f"
  by (simp add: reprice_item_def Let_def split: option.splits)

lemma sum_list_all_zero:
  "(\<And>x. x \<in> set xs \<Longrightarrow> f x = 0) \<Longrightarrow> sum_list (map f xs) = (0::real)"
  by (induction xs) auto

lemma engine_item_names:
  assumes "recommend_fertilizers n p k a = Inr r" and "it \<in> set (fertilizers r)"
  shows "fertilizer it
           \<in> {''DAP (Diammonium Phosphate)'', ''MOP (Muriate of Potash)'', ''Urea''}"
proof -
  obtain r' s1 where h: "recommend_fertilizers n p k a = Inr r'"
      "step_dap a (init_state n p k) = Inr s1"
      "n_remaining s1 = (if 0 < p then n - p / (46 / 100) * (18 / 100) else n)"
      "map fertilizer (fertilizers r')
         = (if 0 < p then [''DAP (Diammonium Phosphate)''] else [])
           @ (if 0 < k then [''MOP (Muriate of Potash)''] else [])
           @ (if 0 < n_remaining s1 then [''Urea''] else [])"
    using recommend_fertilizers_names [of n p k a] by blast
  have "r' = r"
    using h(1) assms(1) by simp
  then have "set (map fertilizer (fertilizers r))
          \<subseteq> {''DAP (Diammonium Phosphate)'', ''MOP (Muriate of Potash)'', ''Urea''}"
    using h(4) by (simp split: if_splits)
  moreover have "fertilizer it \<in> set (map fertilizer (fertilizers r))"
    using assms(2) by simp
  ultimately show ?thesis
    by (rule subsetD)
qed

lemma engine_names_priced:
  assumes "nm \<in> {''DAP (Diammonium Phosphate)'', ''MOP (Muriate of Potash)'', ''Urea''}"
  shows "base_name nm \<in> {''DAP'', ''MOP'', ''Urea''}
         \<and> (\<exists>entry. map_of FERTILIZER_PRICES_INR (base_name nm) = Some entry)"
  using assms
  by (auto simp add: base_name_dap base_name_mop base_name_urea FERTILIZER_PRICES_INR_def)

lemma reprice_engine_item:
  assumes "fertilizer f
             \<in> {''DAP (Diammonium Phosphate)'', ''MOP (Muriate of Potash)'', ''Urea''}"
  shows "is_verified (fst (reprice_item a f t)) = Some True
         \<and> (\<exists>price. price_per_50kg (fst (reprice_item a f t)) = Some (PriceNum price))"
proof -
  obtain entry where "map_of FERTILIZER_PRICES_INR (base_name (fertilizer f)) = Some entry"
    using engine_names_priced [OF assms] by blast
  from reprice_item_found [OF this, of a t] show ?thesis
    by simp
qed

lemma biofertilizer_item_name:
  "fertilizer (biofertilizer_item a) = ''Biofertilizer (Rhizobium/Azotobacter)''"
  by (simp add: biofertilizer_item_def)

lemma generate_recommendation_fertilizers_eq:
  assumes "recommend_fertilizers n p k a = Inr r"
  shows "generate_recommendation_fertilizers n p k a oc =
           Inr (r\<lparr>fertilizers :=
                    (if (case oc of None \<Rightarrow> False | Some c \<Rightarrow> c < 0.75)
                     then fst (reprice_loop a (fertilizers r) 0) @ [biofertilizer_item a]
                     else fst (reprice_loop a (fertilizers r) 0)),
                  total_cost := snd (reprice_loop a (fertilizers r) 0)\<rparr>,
                (case oc of None \<Rightarrow> False | Some c \<Rightarrow> c < 0.75))"
  using assms
  by (simp add: generate_recommendation_fertilizers_def reprice_and_biofertilizer_def Let_def
        split: prod.splits)

lemma repriced_names:
  "map fertilizer (fst (reprice_loop a fs t)) = map fertilizer fs"
  by (simp add: reprice_loop_items reprice_item_fertilizer)

lemma no_biofertilizer_among_engine_items:
  assumes "recommend_fertilizers n p k a = Inr r"
  shows "filter (\<lambda>it. fertilizer it = ''Biofertilizer (Rhizobium/Azotobacter)'')
           (fst (reprice_loop a (fertilizers r) 0)) = []"
proof -
  have "fertilizer it \<noteq> ''Biofertilizer (Rhizobium/Azotobacter)''"
    if "it \<in> set (fst (reprice_loop a (fertilizers r) 0))" for it
  proof -
    from that obtain f where f: "f \<in> set (fertilizers r)" "it = fst (reprice_item a f 0)"
      by (auto simp: reprice_loop_items)
    have "fertilizer it = fertilizer f"
      using f(2) by (simp add: reprice_item_fertilizer)
    then show ?thesis
      using engine_item_names [OF assms f(1)] by auto
  qed
  then show ?thesis
    by (simp add: filter_empty_conv)
qed

section \<open>Claims about repricing and the biofertilizer item\<close>

text \<open>
  C2. After the repricing loop, started with a total of 0 on any list of line items (the
  engine's among them): the list keeps its length and names; every item whose base name
  is a key of the price table has \<open>cost = ceil (quantity_total / 50) * price_per_50kg\<close> of
  its entry, that price as its price field, and is verified; every item whose base name is
  not a key has the sentinel text as its price (in the source the literal
  \<^verbatim>\<open>Govt. price not available\<close>), cost 0, and is not verified; and the recalculated total
  is the sum of the costs of exactly the verified items, the other items adding up to 0.
\<close>

theorem C2_repricing:
  assumes "reprice_loop a items 0 = (items', tot)"
  shows "length items' = length items
    \<and> (\<forall>i < length items.
         fertilizer (items' ! i) = fertilizer (items ! i)
         \<and> quantity_total (items' ! i)
             = Some (case quantity_total (items ! i) of
                       None \<Rightarrow> quantity_kg_per_hectare (items ! i) * a | Some q \<Rightarrow> q)
         \<and> (\<forall>entry. map_of FERTILIZER_PRICES_INR (base_name (fertilizer (items ! i)))
                       = Some entry \<longrightarrow>
              (\<exists>q. quantity_total (items' ! i) = Some q
                 \<and> cost (items' ! i) = of_int (\<lceil>q / 50\<rceil> * entry_price_per_50kg entry))
              \<and> price_per_50kg (items' ! i) = Some (PriceNum (entry_price_per_50kg entry))
              \<and> is_verified (items' ! i) = Some True)
         \<and> (map_of FERTILIZER_PRICES_INR (base_name (fertilizer (items ! i))) = None \<longrightarrow>
              price_per_50kg (items' ! i) = Some (PriceText ''Govt. price not available'')
              \<and> cost (items' ! i) = 0
              \<and> is_verified (items' ! i) = Some False))
    \<and> tot = sum_list (map cost (filter (\<lambda>it. is_verified it = Some True) items'))
    \<and> sum_list (map cost (filter (\<lambda>it. is_verified it \<noteq> Some True) items')) = 0"
    (is "_ \<and> (\<forall>i < _. ?P i) \<and> _ \<and> _")
proof -
  have items': "items' = map (\<lambda>f. fst (reprice_item a f 0)) items"
    using reprice_loop_items [of a items 0] assms by simp
  have len: "length items' = length items"
    using items' by simp
  have tot: "tot = sum_list (map cost (filter (\<lambda>it. is_verified it = Some True) items'))"
    using reprice_loop_total [of a items 0] assms by simp
  have each: "?P i" if "i < length items" for i
  proof -
    have nth: "items' ! i = fst (reprice_item a (items ! i) 0)"
      using items' that by simp
    show ?thesis
    proof (cases "map_of FERTILIZER_PRICES_INR (base_name (fertilizer (items ! i)))")
      case None
      from reprice_item_not_found [OF None, of a 0] show ?thesis
        using None nth by simp
    next
      case (Some entry)
      from reprice_item_found [OF Some, of a 0] show ?thesis
        using Some nth by simp
    qed
  qed
  have zero: "cost it = 0" if "it \<in> set items'" "is_verified it \<noteq> Some True" for it
  proof -
    from that(1) obtain i where i: "i < length items'" "items' ! i = it"
      by (auto simp: in_set_conv_nth)
    then have "i < length items" using len by simp
    from each [OF this] i(2) that(2) show ?thesis
      by (cases "map_of FERTILIZER_PRICES_INR (base_name (fertilizer (items ! i)))") auto
  qed
  have unverified:
    "sum_list (map cost (filter (\<lambda>it. is_verified it \<noteq> Some True) items')) = 0"
    by (rule sum_list_all_zero) (use zero in auto)
  from each have all: "\<forall>i < length items. ?P i"
    by blast
  show ?thesis
    using len all tot unverified by (intro conjI)
qed

theorem C2_repricing_witness:
  "reprice_loop 1 [example_dap_item, scenario_F_item] 0
     = ([example_dap_item\<lparr>price_per_50kg := Some (PriceNum 1350), cost := 4050,
                           is_verified := Some True\<rparr>,
         scenario_F_item\<lparr>price_per_50kg := Some (PriceText ''Govt. price not available''),
                          cost := 0, is_verified := Some False,
                          item_note := Some ''Price not verified by Govt of India''\<rparr>],
        4050)
   \<and> map_of FERTILIZER_PRICES_INR (base_name (fertilizer example_dap_item))
       = Some \<lparr>entry_price_per_50kg = 1350, npk_composition = ''18-46-0'',
               nitrogen_percent = 18, phosphorus_percent = 46, potassium_percent = 0\<rparr>
   \<and> map_of FERTILIZER_PRICES_INR (base_name (fertilizer scenario_F_item)) = None
   \<and> (4050::real) = of_int (\<lceil>130.43 / 50 :: real\<rceil> * 1350)
   \<and> (4050::real)
       = sum_list (map cost (filter (\<lambda>it. is_verified it = Some True)
           [example_dap_item\<lparr>price_per_50kg := Some (PriceNum 1350), cost := 4050,
                              is_verified := Some True\<rparr>,
            scenario_F_item\<lparr>price_per_50kg := Some (PriceText ''Govt. price not available''),
                             cost := 0, is_verified := Some False,
                             item_note := Some ''Price not verified by Govt of India''\<rparr>]))"
proof -
  have run: "reprice_loop 1 [example_dap_item, scenario_F_item] 0
     = ([example_dap_item\<lparr>price_per_50kg := Some (PriceNum 1350), cost := 4050,
                           is_verified := Some True\<rparr>,
         scenario_F_item\<lparr>price_per_50kg := Some (PriceText ''Govt. price not available''),
                          cost := 0, is_verified := Some False,
                          item_note := Some ''Price not verified by Govt of India''\<rparr>],
        4050)"
    by (simp add: reprice_item_def example_dap_item_def scenario_F_item_def base_name_dap
          base_name_scenario_F FERTILIZER_PRICES_INR_def math_ceil_def Let_def)
  from C2_repricing [OF run] run show ?thesis
    by (simp add: example_dap_item_def scenario_F_item_def base_name_dap
          base_name_scenario_F FERTILIZER_PRICES_INR_def)
qed

text \<open>
  C10. Whatever the inputs, the engine returns normally and every line item it emits is
  named \<^verbatim>\<open>DAP (Diammonium Phosphate)\<close>, \<^verbatim>\<open>MOP (Muriate of Potash)\<close> or \<^verbatim>\<open>Urea\<close>; the base
  names of these, \<^verbatim>\<open>DAP\<close>, \<^verbatim>\<open>MOP\<close> and \<^verbatim>\<open>Urea\<close>, are keys of \<^verbatim>\<open>FERTILIZER_PRICES_INR\<close>.
  So after repricing every one of them is verified and carries a numeric price, never the
  sentinel text, and in the final list the only item that can be unverified is the
  biofertilizer item.
\<close>

theorem C10_engine_items_always_verified:
  "\<exists>r fr needed.
      recommend_fertilizers n p k a = Inr r
    \<and> generate_recommendation_fertilizers n p k a oc = Inr (fr, needed)
    \<and> (\<forall>it \<in> set (fertilizers r).
          fertilizer it
            \<in> {''DAP (Diammonium Phosphate)'', ''MOP (Muriate of Potash)'', ''Urea''}
          \<and> base_name (fertilizer it) \<in> {''DAP'', ''MOP'', ''Urea''}
          \<and> map_of FERTILIZER_PRICES_INR (base_name (fertilizer it)) \<noteq> None)
    \<and> (\<forall>it \<in> set (fst (reprice_loop a (fertilizers r) 0)).
          is_verified it = Some True
          \<and> (\<exists>price. price_per_50kg it = Some (PriceNum price))
          \<and> price_per_50kg it \<noteq> Some (PriceText ''Govt. price not available''))
    \<and> (\<forall>it \<in> set (fertilizers fr).
          is_verified it \<noteq> Some True \<longrightarrow> it = biofertilizer_item a)
    \<and> base_name ''DAP (Diammonium Phosphate)'' = ''DAP''
    \<and> base_name ''MOP (Muriate of Potash)'' = ''MOP''
    \<and> base_name ''Urea'' = ''Urea''"
proof -
  obtain r where r: "recommend_fertilizers n p k a = Inr r"
    using recommend_fertilizers_names [of n p k a] by blast
  let ?repriced = "fst (reprice_loop a (fertilizers r) 0)"
  let ?needed = "case oc of None \<Rightarrow> False | Some c \<Rightarrow> c < 0.75"
  let ?fr = "r\<lparr>fertilizers :=
                  (if ?needed then ?repriced @ [biofertilizer_item a] else ?repriced),
                total_cost := snd (reprice_loop a (fertilizers r) 0)\<rparr>"
  have g: "generate_recommendation_fertilizers n p k a oc = Inr (?fr, ?needed)"
    by (rule generate_recommendation_fertilizers_eq [OF r])
  have names: "\<forall>it \<in> set (fertilizers r).
          fertilizer it
            \<in> {''DAP (Diammonium Phosphate)'', ''MOP (Muriate of Potash)'', ''Urea''}
          \<and> base_name (fertilizer it) \<in> {''DAP'', ''MOP'', ''Urea''}
          \<and> map_of FERTILIZER_PRICES_INR (base_name (fertilizer it)) \<noteq> None"
    using engine_item_names [OF r] engine_names_priced by blast
  have repriced: "\<forall>it \<in> set ?repriced.
          is_verified it = Some True
          \<and> (\<exists>price. price_per_50kg it = Some (PriceNum price))
          \<and> price_per_50kg it \<noteq> Some (PriceText ''Govt. price not available'')"
  proof
    fix it assume "it \<in> set ?repriced"
    then obtain f where f: "f \<in> set (fertilizers r)" "it = fst (reprice_item a f 0)"
      by (auto simp: reprice_loop_items)
    from reprice_engine_item [OF engine_item_names [OF r f(1)], of a 0] f(2)
    show "is_verified it = Some True
          \<and> (\<exists>price. price_per_50kg it = Some (PriceNum price))
          \<and> price_per_50kg it \<noteq> Some (PriceText ''Govt. price not available'')"
      by auto
  qed
  have final: "\<forall>it \<in> set (fertilizers ?fr).
          is_verified it \<noteq> Some True \<longrightarrow> it = biofertilizer_item a"
    using repriced by auto
  show ?thesis
    using r g names repriced final base_name_dap base_name_mop base_name_urea
    by (intro exI [of _ r] exI [of _ ?fr] exI [of _ ?needed] conjI)
qed

theorem C10_engine_items_always_verified_witness:
  "\<exists>r fr needed.
      recommend_fertilizers 120 60 30 1 = Inr r
    \<and> generate_recommendation_fertilizers 120 60 30 1 (Some 0.4) = Inr (fr, needed)
    \<and> fertilizers r \<noteq> []
    \<and> (\<forall>it \<in> set (fertilizers r).
          map_of FERTILIZER_PRICES_INR (base_name (fertilizer it)) \<noteq> None)
    \<and> (\<forall>it \<in> set (fst (reprice_loop 1 (fertilizers r) 0)). is_verified it = Some True)
    \<and> (\<forall>it \<in> set (fertilizers fr).
          is_verified it \<noteq> Some True \<longrightarrow> it = biofertilizer_item 1)"
proof -
  obtain r fr needed where h:
      "recommend_fertilizers 120 60 30 1 = Inr r"
      "generate_recommendation_fertilizers 120 60 30 1 (Some 0.4) = Inr (fr, needed)"
      "\<forall>it \<in> set (fertilizers r).
          fertilizer it
            \<in> {''DAP (Diammonium Phosphate)'', ''MOP (Muriate of Potash)'', ''Urea''}
          \<and> base_name (fertilizer it) \<in> {''DAP'', ''MOP'', ''Urea''}
          \<and> map_of FERTILIZER_PRICES_INR (base_name (fertilizer it)) \<noteq> None"
      "\<forall>it \<in> set (fst (reprice_loop 1 (fertilizers r) 0)).
          is_verified it = Some True
          \<and> (\<exists>price. price_per_50kg it = Some (PriceNum price))
          \<and> price_per_50kg it \<noteq> Some (PriceText ''Govt. price not available'')"
      "\<forall>it \<in> set (fertilizers fr).
          is_verified it \<noteq> Some True \<longrightarrow> it = biofertilizer_item 1"
    using C10_engine_items_always_verified [of 120 60 30 1 "Some 0.4"] by blast
  obtain r' s1 where h': "recommend_fertilizers 120 60 30 1 = Inr r'"
      "step_dap 1 (init_state 120 60 30) = Inr s1"
      "n_remaining s1 = (if (0::real) < 60 then 120 - 60 / (46 / 100) * (18 / 100) else 120)"
      "map fertilizer (fertilizers r')
         = (if (0::real) < 60 then [''DAP (Diammonium Phosphate)''] else [])
           @ (if (0::real) < 30 then [''MOP (Muriate of Potash)''] else [])
           @ (if 0 < n_remaining s1 then [''Urea''] else [])"
    using recommend_fertilizers_names [of 120 60 30 1] by blast
  have "r' = r"
    using h(1) h'(1) by simp
  then have ne: "fertilizers r \<noteq> []"
    using h'(4) by auto
  have a: "\<forall>it \<in> set (fertilizers r).
          map_of FERTILIZER_PRICES_INR (base_name (fertilizer it)) \<noteq> None"
    using h(3) by blast
  have b: "\<forall>it \<in> set (fst (reprice_loop 1 (fertilizers r) 0)). is_verified it = Some True"
    using h(4) by blast
  show ?thesis
    using h(1,2) ne a b h(5) by (intro exI [of _ r] exI [of _ fr] exI [of _ needed] conjI)
qed

text \<open>
  C5. Whatever the inputs, the handler's list after repricing is the repriced engine list
  followed by the biofertilizer item if and only if \<^verbatim>\<open>organic_carbon\<close> is known and below
  0.75; the list then holds exactly one item of that name, at the end. The item has 2.0 kg
  per hectare, a total of 2.0 times the field area, cost 0, is not verified and carries the
  application stage \<^verbatim>\<open>Seed Treatment\<close>. The total cost is the one the repricing loop
  computed, the sum over the verified items, to which the biofertilizer adds nothing.
\<close>

theorem C5_biofertilizer_iff_low_organic_carbon:
  "\<exists>r fr needed.
      recommend_fertilizers n p k a = Inr r
    \<and> generate_recommendation_fertilizers n p k a oc = Inr (fr, needed)
    \<and> (needed \<longleftrightarrow> (\<exists>c. oc = Some c \<and> c < 0.75))
    \<and> fertilizers fr
        = fst (reprice_loop a (fertilizers r) 0)
          @ (if needed then [biofertilizer_item a] else [])
    \<and> length (filter (\<lambda>it. fertilizer it = ''Biofertilizer (Rhizobium/Azotobacter)'')
                 (fertilizers fr))
        = (if needed then 1 else 0)
    \<and> fertilizer (biofertilizer_item a) = ''Biofertilizer (Rhizobium/Azotobacter)''
    \<and> quantity_kg_per_hectare (biofertilizer_item a) = 2
    \<and> quantity_total (biofertilizer_item a) = Some (2 * a)
    \<and> cost (biofertilizer_item a) = 0
    \<and> is_verified (biofertilizer_item a) = Some False
    \<and> application_stage (biofertilizer_item a) = Some ''Seed Treatment''
    \<and> total_cost fr = snd (reprice_loop a (fertilizers r) 0)
    \<and> total_cost fr
        = sum_list (map cost (filter (\<lambda>it. is_verified it = Some True)
                                (fst (reprice_loop a (fertilizers r) 0))))
    \<and> total_cost fr
        = sum_list (map cost (filter (\<lambda>it. is_verified it = Some True) (fertilizers fr)))"
proof -
  obtain r where r: "recommend_fertilizers n p k a = Inr r"
    using recommend_fertilizers_names [of n p k a] by blast
  let ?repriced = "fst (reprice_loop a (fertilizers r) 0)"
  let ?needed = "case oc of None \<Rightarrow> False | Some c \<Rightarrow> c < 0.75"
  let ?fr = "r\<lparr>fertilizers :=
                  (if ?needed then ?repriced @ [biofertilizer_item a] else ?repriced),
                total_cost := snd (reprice_loop a (fertilizers r) 0)\<rparr>"
  have g: "generate_recommendation_fertilizers n p k a oc = Inr (?fr, ?needed)"
    by (rule generate_recommendation_fertilizers_eq [OF r])
  have needed: "?needed \<longleftrightarrow> (\<exists>c. oc = Some c \<and> c < 0.75)"
    by (cases oc) simp_all
  have items: "fertilizers ?fr = ?repriced @ (if ?needed then [biofertilizer_item a] else [])"
    by simp
  have once: "length (filter (\<lambda>it. fertilizer it = ''Biofertilizer (Rhizobium/Azotobacter)'')
                 (fertilizers ?fr)) = (if ?needed then 1 else 0)"
    using no_biofertilizer_among_engine_items [OF r] by (simp add: biofertilizer_item_name)
  have t1: "total_cost ?fr = snd (reprice_loop a (fertilizers r) 0)"
    by simp
  have t2: "total_cost ?fr
        = sum_list (map cost (filter (\<lambda>it. is_verified it = Some True) ?repriced))"
    using reprice_loop_total [of a "fertilizers r" 0] by simp
  have t3: "total_cost ?fr
        = sum_list (map cost (filter (\<lambda>it. is_verified it = Some True) (fertilizers ?fr)))"
    using t2 by (simp add: biofertilizer_item_def)
  have bio: "fertilizer (biofertilizer_item a) = ''Biofertilizer (Rhizobium/Azotobacter)''"
      "quantity_kg_per_hectare (biofertilizer_item a) = 2"
      "quantity_total (biofertilizer_item a) = Some (2 * a)"
      "cost (biofertilizer_item a) = 0"
      "is_verified (biofertilizer_item a) = Some False"
      "application_stage (biofertilizer_item a) = Some ''Seed Treatment''"
    by (simp_all add: biofertilizer_item_def)
  show ?thesis
    using r g needed items once bio t1 t2 t3
    by (intro exI [of _ r] exI [of _ ?fr] exI [of _ ?needed] conjI)
qed

text \<open>Scenario E: with \<^verbatim>\<open>organic_carbon = 0.4\<close> the item is appended.\<close>

theorem C5_scenario_E_witness:
  "\<exists>fr. generate_recommendation_fertilizers 120 60 30 1 (Some 0.4) = Inr (fr, True)
     \<and> last (fertilizers fr) = biofertilizer_item 1
     \<and> quantity_kg_per_hectare (last (fertilizers fr)) = 2
     \<and> cost (last (fertilizers fr)) = 0
     \<and> is_verified (last (fertilizers fr)) = Some False"
proof -
  obtain r fr needed where h:
      "recommend_fertilizers 120 60 30 1 = Inr r"
      "generate_recommendation_fertilizers 120 60 30 1 (Some 0.4) = Inr (fr, needed)"
      "needed \<longleftrightarrow> (\<exists>c. Some (0.4::real) = Some c \<and> c < 0.75)"
      "fertilizers fr
        = fst (reprice_loop 1 (fertilizers r) 0)
          @ (if needed then [biofertilizer_item 1] else [])"
    using C5_biofertilizer_iff_low_organic_carbon [of 120 60 30 1 "Some 0.4"] by blast
  have "\<exists>c::real. Some (0.4::real) = Some c \<and> c < 0.75"
    by (rule exI [of _ "0.4"]) simp
  then have n: "needed" using h(3) by blast
  then have "last (fertilizers fr) = biofertilizer_item 1" using h(4) by simp
  then show ?thesis
    using h(2) n by (intro exI [of _ fr]) (simp add: biofertilizer_item_def)
qed

section \<open>The soil improvement advisor: which rules fire\<close>

lemma threshold_rules_first:
  "threshold_rules ph ec oc p =
     (if ph < 5.5 then [lime_improvement (calculate_lime_requirement ph)]
      else if 7.5 < ph then [gypsum_improvement (calculate_gypsum_requirement ph)]
      else [])
     @ (if (case ec of None \<Rightarrow> False | Some e \<Rightarrow> e \<noteq> 0 \<and> 2.0 < e)
        then [salinity_improvement] else [])
     @ (if (case oc of None \<Rightarrow> False | Some c \<Rightarrow> c < 0.5) then [low_organic_improvement]
        else if (case oc of None \<Rightarrow> False | Some c \<Rightarrow> 0.5 \<le> c \<and> c < 0.75)
        then [moderate_organic_improvement] else [])
     @ (if (case p of None \<Rightarrow> False | Some v \<Rightarrow> v < 10)
        then [low_phosphorus_improvement] else [])"
  by (simp add: threshold_rules_def Let_def)

lemma threshold_rules_issues:
  assumes "x \<in> set (threshold_rules ph ec oc p)"
  shows "issue x \<noteq> ''Multiple Soil Health Issues'' \<and> issue x \<noteq> ''Soil Health Maintenance''"
  using assms
  by (auto simp add: threshold_rules_first lime_improvement_def gypsum_improvement_def
        salinity_improvement_def low_organic_improvement_def
        moderate_organic_improvement_def low_phosphorus_improvement_def
      split: if_splits)

lemma green_not_threshold: "green_manure_improvement \<notin> set (threshold_rules ph ec oc p)"
  using threshold_rules_issues [of green_manure_improvement ph ec oc p]
  by (auto simp add: green_manure_improvement_def)

lemma maintenance_not_threshold:
  "maintenance_improvement \<notin> set (threshold_rules ph ec oc p)"
  using threshold_rules_issues [of maintenance_improvement ph ec oc p]
  by (auto simp add: maintenance_improvement_def)

lemma green_ne_maintenance: "green_manure_improvement \<noteq> maintenance_improvement"
  by (simp add: green_manure_improvement_def maintenance_improvement_def)

lemma threshold_rules_length:
  "length (threshold_rules ph ec oc p) =
     (if ph < 5.5 \<or> 7.5 < ph then 1 else 0)
     + (if \<exists>e. ec = Some e \<and> e \<noteq> 0 \<and> 2.0 < e then 1 else 0)
     + (if \<exists>c. oc = Some c \<and> c < 0.75 then 1 else 0)
     + (if \<exists>v. p = Some v \<and> v < 10 then 1 else 0)"
proof -
  have a: "length (if ph < 5.5 then [lime_improvement (calculate_lime_requirement ph)]
      else if 7.5 < ph then [gypsum_improvement (calculate_gypsum_requirement ph)]
      else []) = (if ph < 5.5 \<or> 7.5 < ph then 1 else 0)"
    by simp
  have b: "length (if (case ec of None \<Rightarrow> False | Some e \<Rightarrow> e \<noteq> 0 \<and> 2.0 < e)
        then [salinity_improvement] else [])
      = (if \<exists>e. ec = Some e \<and> e \<noteq> 0 \<and> 2.0 < e then 1 else 0)"
    by (cases ec) simp_all
  have c: "length (if (case oc of None \<Rightarrow> False | Some c \<Rightarrow> c < 0.5)
        then [low_organic_improvement]
        else if (case oc of None \<Rightarrow> False | Some c \<Rightarrow> 0.5 \<le> c \<and> c < 0.75)
        then [moderate_organic_improvement] else [])
      = (if \<exists>c. oc = Some c \<and> c < 0.75 then 1 else 0)"
    by (cases oc) auto
  have d: "length (if (case p of None \<Rightarrow> False | Some v \<Rightarrow> v < 10)
        then [low_phosphorus_improvement] else [])
      = (if \<exists>v. p = Some v \<and> v < 10 then 1 else 0)"
    by (cases p) simp_all
  show ?thesis
    unfolding threshold_rules_first length_append a b c d by simp
qed

lemma get_soil_improvements_prefix:
  "\<exists>rest. get_soil_improvements ph ec oc n p k = threshold_rules ph ec oc p @ rest"
  by (simp add: get_soil_improvements_def Let_def)

section \<open>Rounding to doubles in the lime requirement\<close>

lemma round_half_even_ge_floor: "\<lfloor>y\<rfloor> \<le> round_half_even y"
  by (simp add: round_half_even_def Let_def)

lemma round_half_even_le_ceiling: "round_half_even y \<le> \<lceil>y\<rceil>"
proof -
  have "\<lfloor>y\<rfloor> + 1 \<le> \<lceil>y\<rceil>" if "y \<noteq> of_int \<lfloor>y\<rfloor>"
    using that by (metis ceiling_altdef order_refl)
  moreover have "\<lfloor>y\<rfloor> \<le> \<lceil>y\<rceil>" by (simp add: floor_le_ceiling)
  ultimately show ?thesis
    by (auto simp add: round_half_even_def Let_def)
qed

lemma fl_nonpos: "x \<le> 0 \<Longrightarrow> fl x \<le> 0"
proof -
  assume x: "x \<le> 0"
  have "round_half_even (x / 2 powi e) \<le> 0" for e
  proof -
    have "x / 2 powi e \<le> 0" using x by (simp add: divide_nonpos_pos)
    then have "\<lceil>x / 2 powi e\<rceil> \<le> 0" by (simp add: ceiling_le_iff)
    then show ?thesis using round_half_even_le_ceiling [of "x / 2 powi e"] by linarith
  qed
  then show ?thesis
    by (simp add: fl_def Let_def mult_le_0_iff)
qed

lemma fl_nonneg: "0 \<le> x \<Longrightarrow> 0 \<le> fl x"
proof -
  assume x: "0 \<le> x"
  have "0 \<le> round_half_even (x / 2 powi e)" for e
  proof -
    have "0 \<le> x / 2 powi e" using x by simp
    then have "0 \<le> \<lfloor>x / 2 powi e\<rfloor>" by simp
    then show ?thesis using round_half_even_ge_floor [of "x / 2 powi e"] by linarith
  qed
  then show ?thesis
    by (simp add: fl_def Let_def)
qed

lemma binade_le_2: "0 < x \<Longrightarrow> x < 8 \<Longrightarrow> binade x \<le> 2"
proof -
  assume "0 < x" "x < 8"
  show ?thesis
  proof (cases "1 \<le> x")
    case True
    have "\<lfloor>x\<rfloor> < 8" using \<open>x < 8\<close> by (simp add: floor_less_iff)
    then have "nat \<lfloor>x\<rfloor> \<le> 7" by linarith
    then have "floorlog 2 (nat \<lfloor>x\<rfloor>) \<le> floorlog 2 7" by (rule floorlog_mono)
    moreover have "floorlog 2 7 = 3" by (simp add: compute_floorlog)
    ultimately show ?thesis using True by (simp add: binade_def bitlen_def)
  next
    case False
    then show ?thesis using bitlen_nonneg [of "\<lceil>1 / x\<rceil> - 1"] by (simp add: binade_def)
  qed
qed

text \<open>Rounding does not carry a value below 5.5 above 5.5, which is a double.\<close>

lemma fl_le_11_halves:
  assumes "x < 11 / 2"
  shows "fl x \<le> 11 / 2"
proof (cases "x \<le> 0")
  case True
  then show ?thesis using fl_nonpos [of x] by simp
next
  case False
  then have pos: "0 < x" by simp
  define e where "e = max (binade \<bar>x\<bar> - 52) (- 1074)"
  have "binade \<bar>x\<bar> \<le> 2" using binade_le_2 [of x] pos assms by simp
  then have e: "e \<le> - 50" "- 1074 \<le> e" by (simp_all add: e_def)
  define N :: int where "N = 11 * 2 ^ nat (- e - 1)"
  have p: "(2::real) powi e = 1 / 2 ^ nat (- e)"
    using e by (simp add: power_int_def field_simps)
  have "(2::real) ^ nat (- e) = 2 * 2 ^ nat (- e - 1)"
  proof -
    have "nat (- e) = Suc (nat (- e - 1))" using e by simp
    then show ?thesis by simp
  qed
  then have N: "of_int N * 2 powi e = (11 / 2 :: real)"
    by (simp add: N_def p)
  have "x / 2 powi e \<le> of_int N"
  proof -
    have le: "x \<le> 11 / 2" using assms by simp
    have nn: "0 \<le> (2::real) powi e" by simp
    have "x / 2 powi e \<le> (11 / 2) / 2 powi e"
      using le nn by (rule divide_right_mono)
    also have "\<dots> = of_int N" using N by (simp add: field_simps)
    finally show ?thesis .
  qed
  then have "\<lceil>x / 2 powi e\<rceil> \<le> N" by (simp add: ceiling_le_iff)
  then have "round_half_even (x / 2 powi e) \<le> N"
    using round_half_even_le_ceiling [of "x / 2 powi e"] by linarith
  then have "of_int (round_half_even (x / 2 powi e)) * 2 powi e \<le> of_int N * (2::real) powi e"
    by (simp add: mult_right_mono)
  moreover have "fl x = of_int (round_half_even (x / 2 powi e)) * 2 powi e"
    using pos by (simp add: fl_def e_def Let_def)
  ultimately show ?thesis using N by simp
qed

text \<open>Rounding keeps a value from 1 on positive.\<close>

lemma fl_pos:
  assumes "1 \<le> x"
  shows "0 < fl x"
proof -
  have fx: "0 < \<lfloor>x\<rfloor>" using assms by simp
  define b where "b = bitlen \<lfloor>x\<rfloor> - 1"
  have b0: "0 \<le> b" using fx by (simp add: b_def bitlen_alt_def)
  have "2 ^ nat b \<le> \<lfloor>x\<rfloor>" using bitlen_bounds [OF fx] by (simp add: b_def)
  then have "(2::real) ^ nat b \<le> of_int \<lfloor>x\<rfloor>"
    by (metis of_int_le_iff of_int_numeral of_int_power)
  then have lo: "(2::real) ^ nat b \<le> x" by linarith
  have be: "binade \<bar>x\<bar> = b" using assms by (simp add: binade_def b_def)
  define e where "e = max (binade \<bar>x\<bar> - 52) (- 1074)"
  have e: "e = b - 52" using b0 be by (simp add: e_def)
  have "(2::real) powi e \<le> 2 powi b"
    by (rule power_int_increasing) (simp_all add: e)
  also have "\<dots> = 2 ^ nat b" using b0 by (simp add: power_int_def)
  finally have "(2::real) powi e \<le> x" using lo by simp
  then have "1 \<le> x / 2 powi e" by (simp add: field_simps)
  then have "1 \<le> \<lfloor>x / 2 powi e\<rfloor>" by (simp add: le_floor_iff)
  then have "1 \<le> round_half_even (x / 2 powi e)"
    using round_half_even_ge_floor [of "x / 2 powi e"] by linarith
  then have "0 < of_int (round_half_even (x / 2 powi e)) * (2::real) powi e"
    by (simp add: zero_less_mult_iff)
  moreover have "fl x = of_int (round_half_even (x / 2 powi e)) * 2 powi e"
    using assms by (simp add: fl_def e_def Let_def)
  ultimately show ?thesis by simp
qed

lemma ph_increase_positive:
  assumes "ph < 5.5"
  shows "0 < fl (6.5 - fl ph)"
proof -
  have "fl ph \<le> 11 / 2" using fl_le_11_halves [of ph] assms by simp
  then have "1 \<le> 6.5 - fl ph" by simp
  then show ?thesis by (rule fl_pos)
qed

lemma calculate_lime_requirement_acidic:
  assumes "ph < 5.5"
  shows "calculate_lime_requirement ph
           = min (max \<lfloor>fl (fl (6.5 - fl ph) * 1000)\<rfloor> 500) 3000"
proof -
  have d: "0 < fl (6.5 - fl ph)" using assms by (rule ph_increase_positive)
  then have "0 \<le> fl (6.5 - fl ph) * 1000" by simp
  then have "0 \<le> fl (fl (6.5 - fl ph) * 1000)" by (rule fl_nonneg)
  then show ?thesis
    using d by (simp add: calculate_lime_requirement_def Let_def py_int_def)
qed

text \<open>
  The requirement at some inputs: 5.2, 5.4 and 3.503 are not doubles and stand for the
  doubles nearest to them, where the rounded product falls just below, or onto, a whole
  number.
\<close>

lemma fl_examples:
  "fl 5 = 5"
  "fl (5121 / 1024) = 5121 / 1024"
  "fl 5.2 = 5854679515581645 / 1125899906842624"
  "fl (5854679515581645 / 1125899906842624) = 5854679515581645 / 1125899906842624"
  by code_simp+

lemma calculate_lime_requirement_examples:
  "calculate_lime_requirement 5 = 1500"
  "calculate_lime_requirement (5121 / 1024) = 1499"
  "calculate_lime_requirement 5.2 = 1299"
  "calculate_lime_requirement (5854679515581645 / 1125899906842624) = 1299"
  "calculate_lime_requirement 5.4 = 1099"
  "calculate_lime_requirement 3.503 = 2997"
  by code_simp+

section \<open>Claims about the soil improvement advisor\<close>

text \<open>
  C6, as stated, fails for lime: at \<open>ph = 5121 / 1024\<close> (about 5.001, below 5.5, a double
  on which the float operations are exact) the advisor's lime quantity is 1499 kg/ha,
  while \<open>clamp (1000 * (6.5 - ph), 500, 3000)\<close> is \<open>191875 / 128\<close>, that is 1499.0234375.
\<close>

theorem C6_lime_quantity_truncated_counterexample:
  "(5121 / 1024 :: real) < 5.5
   \<and> calculate_lime_requirement (5121 / 1024) = 1499
   \<and> map quantity (get_soil_improvements (5121 / 1024) None None None None None)
       = [''1499 kg/ha'']
   \<and> min (max (1000 * (6.5 - 5121 / 1024)) 500) 3000 = (191875 / 128 :: real)
   \<and> of_int (calculate_lime_requirement (5121 / 1024)) \<noteq> (191875 / 128 :: real)"
  by (simp add: get_soil_improvements_def threshold_rules_def lime_improvement_def
        calculate_lime_requirement_examples Let_def str_int_def str_nat.simps
        digit_char_def)

text \<open>
  C6, amended. For every double \<open>ph\<close> with \<open>0 \<le> ph < 5.5\<close> the advisor's first entry is the
  lime recommendation, its quantity being \<open>clamp (int ((6.5 - ph) * 1000), 500, 3000)\<close>
  kg/ha, where the difference and the product are float operations, each rounded to the
  nearest double, and \<open>int\<close> drops the fractional part of the rounded product (here the
  floor, the product being positive): a whole number of kg. For every \<open>ph > 7.5\<close> the
  first entry is the gypsum recommendation with 750 kg/ha when \<open>ph > 8.5\<close>, 500 kg/ha when
  \<open>8.0 < ph \<le> 8.5\<close>, and 350 kg/ha otherwise. The quantity field is the number followed by
  \<^verbatim>\<open> kg/ha\<close>.
\<close>

theorem C6_lime_and_gypsum_quantities:
  "(fl ph = ph \<and> 0 \<le> ph \<and> ph < 5.5 \<longrightarrow>
      (\<exists>rest. get_soil_improvements ph ec oc n p k
         = lime_improvement (min (max (py_int (fl (fl (6.5 - ph) * 1000))) 500) 3000)
           # rest)
      \<and> py_int (fl (fl (6.5 - ph) * 1000)) = \<lfloor>fl (fl (6.5 - ph) * 1000)\<rfloor>
      \<and> calculate_lime_requirement ph
           = min (max (py_int (fl (fl (6.5 - ph) * 1000))) 500) 3000)
   \<and> (7.5 < ph \<longrightarrow>
      (\<exists>rest. get_soil_improvements ph ec oc n p k
         = gypsum_improvement (if 8.5 < ph then 750 else if 8.0 < ph then 500 else 350)
           # rest))
   \<and> quantity (lime_improvement q) = str_int q @ '' kg/ha''
   \<and> quantity (gypsum_improvement q) = str_int q @ '' kg/ha''"
proof -
  obtain rest where g: "get_soil_improvements ph ec oc n p k = threshold_rules ph ec oc p @ rest"
    using get_soil_improvements_prefix [of ph ec oc n p k] by blast
  have lime: "(\<exists>rest. get_soil_improvements ph ec oc n p k
         = lime_improvement (min (max (py_int (fl (fl (6.5 - ph) * 1000))) 500) 3000)
           # rest)
      \<and> py_int (fl (fl (6.5 - ph) * 1000)) = \<lfloor>fl (fl (6.5 - ph) * 1000)\<rfloor>
      \<and> calculate_lime_requirement ph
           = min (max (py_int (fl (fl (6.5 - ph) * 1000))) 500) 3000"
    if h: "fl ph = ph \<and> 0 \<le> ph \<and> ph < 5.5"
  proof -
    have acid: "ph < 5.5" and dbl: "fl ph = ph" using h by simp_all
    have d: "0 < fl (6.5 - ph)"
      using ph_increase_positive [OF acid] dbl by simp
    then have "0 \<le> fl (6.5 - ph) * 1000" by simp
    then have nn: "0 \<le> fl (fl (6.5 - ph) * 1000)" by (rule fl_nonneg)
    then have trunc: "py_int (fl (fl (6.5 - ph) * 1000)) = \<lfloor>fl (fl (6.5 - ph) * 1000)\<rfloor>"
      by (simp add: py_int_def)
    have c: "calculate_lime_requirement ph
           = min (max (py_int (fl (fl (6.5 - ph) * 1000))) 500) 3000"
      using calculate_lime_requirement_acidic [OF acid] dbl trunc by simp
    have "get_soil_improvements ph ec oc n p k
         = lime_improvement (calculate_lime_requirement ph)
           # (tl (threshold_rules ph ec oc p) @ rest)"
      using acid g by (simp add: threshold_rules_first)
    then have "\<exists>rest. get_soil_improvements ph ec oc n p k
         = lime_improvement (min (max (py_int (fl (fl (6.5 - ph) * 1000))) 500) 3000)
           # rest"
      unfolding c by blast
    then show ?thesis using trunc c by blast
  qed
  have gyp: "\<exists>rest. get_soil_improvements ph ec oc n p k
         = gypsum_improvement (if 8.5 < ph then 750 else if 8.0 < ph then 500 else 350)
           # rest"
    if "7.5 < ph"
    using that g
    by (simp add: threshold_rules_first calculate_gypsum_requirement_def)
  have q: "quantity (lime_improvement q) = str_int q @ '' kg/ha''"
      "quantity (gypsum_improvement q) = str_int q @ '' kg/ha''"
    by (simp_all add: lime_improvement_def gypsum_improvement_def)
  have lime': "fl ph = ph \<and> 0 \<le> ph \<and> ph < 5.5 \<longrightarrow>
      (\<exists>rest. get_soil_improvements ph ec oc n p k
         = lime_improvement (min (max (py_int (fl (fl (6.5 - ph) * 1000))) 500) 3000)
           # rest)
      \<and> py_int (fl (fl (6.5 - ph) * 1000)) = \<lfloor>fl (fl (6.5 - ph) * 1000)\<rfloor>
      \<and> calculate_lime_requirement ph
           = min (max (py_int (fl (fl (6.5 - ph) * 1000))) 500) 3000"
    using lime by blast
  have gyp': "7.5 < ph \<longrightarrow>
      (\<exists>rest. get_soil_improvements ph ec oc n p k
         = gypsum_improvement (if 8.5 < ph then 750 else if 8.0 < ph then 500 else 350)
           # rest)"
    using gyp by blast
  from lime' gyp' q show ?thesis
    by (intro conjI)
qed

text \<open>
  Scenario B (\<open>ph = 5.0\<close>, 1500 kg/ha of lime), the double nearest to 5.2 (1299 kg/ha of
  lime, where the exact product would give 1300) and scenario C (\<open>ph = 8.8\<close>, 750 kg/ha of
  gypsum).
\<close>

theorem C6_lime_and_gypsum_quantities_witness:
  "fl 5 = 5 \<and> (0 :: real) \<le> 5 \<and> (5 :: real) < 5.5
   \<and> (\<exists>rest. get_soil_improvements 5 None None None None None
         = lime_improvement 1500 # rest)
   \<and> quantity (lime_improvement 1500) = ''1500 kg/ha''
   \<and> fl (5854679515581645 / 1125899906842624) = 5854679515581645 / 1125899906842624
   \<and> (0 :: real) \<le> 5854679515581645 / 1125899906842624
   \<and> (5854679515581645 / 1125899906842624 :: real) < 5.5
   \<and> (\<exists>rest. get_soil_improvements (5854679515581645 / 1125899906842624)
                 None None None None None
         = lime_improvement 1299 # rest)
   \<and> quantity (lime_improvement 1299) = ''1299 kg/ha''
   \<and> (7.5 :: real) < 8.8
   \<and> (\<exists>rest. get_soil_improvements 8.8 None None None None None
         = gypsum_improvement 750 # rest)
   \<and> quantity (gypsum_improvement 750) = ''750 kg/ha''"
proof -
  have a1: "fl 5 = 5" by (rule fl_examples(1))
  have a2: "(0 :: real) \<le> 5" by simp
  have a3: "(5 :: real) < 5.5" by simp
  have b1: "fl (5854679515581645 / 1125899906842624) = 5854679515581645 / 1125899906842624"
    by (rule fl_examples(4))
  have b2: "(0 :: real) \<le> 5854679515581645 / 1125899906842624" by simp
  have b3: "(5854679515581645 / 1125899906842624 :: real) < 5.5" by simp
  have c1: "(7.5 :: real) < 8.8" by simp
  note t5 = C6_lime_and_gypsum_quantities [of 5 None None None None None 1500]
  note t52 = C6_lime_and_gypsum_quantities
    [of "5854679515581645 / 1125899906842624" None None None None None 1299]
  note t88 = C6_lime_and_gypsum_quantities [of "8.8" None None None None None 750]
  note l5 = mp [OF t5 [THEN conjunct1] conjI [OF a1 conjI [OF a2 a3]]]
  note v5 = trans [OF l5 [THEN conjunct2, THEN conjunct2, symmetric]
    calculate_lime_requirement_examples(1)]
  note r5 = l5 [THEN conjunct1, unfolded v5]
  note l52 = mp [OF t52 [THEN conjunct1] conjI [OF b1 conjI [OF b2 b3]]]
  note v52 = trans [OF l52 [THEN conjunct2, THEN conjunct2, symmetric]
    calculate_lime_requirement_examples(4)]
  note r52 = l52 [THEN conjunct1, unfolded v52]
  have r88: "\<exists>rest. get_soil_improvements 8.8 None None None None None
         = gypsum_improvement 750 # rest"
    using mp [OF t88 [THEN conjunct2, THEN conjunct1] c1] by simp
  have d: "str_int 1500 = ''1500''" "str_int 1299 = ''1299''" "str_int 750 = ''750''"
    by (simp_all add: str_int_def str_nat.simps digit_char_def)
  have q1: "quantity (lime_improvement 1500) = ''1500 kg/ha''"
    using t5 [THEN conjunct2, THEN conjunct2, THEN conjunct1] d(1) by simp
  have q2: "quantity (lime_improvement 1299) = ''1299 kg/ha''"
    using t52 [THEN conjunct2, THEN conjunct2, THEN conjunct1] d(2) by simp
  have q3: "quantity (gypsum_improvement 750) = ''750 kg/ha''"
    using t88 [THEN conjunct2, THEN conjunct2, THEN conjunct2] d(3) by simp
  show ?thesis
    by (intro conjI a1 a2 a3 r5 q1 b1 b2 b3 r52 q2 c1 r88 q3)
qed

text \<open>
  C7. The advisor's result holds the green-manure advisory if and only if the threshold
  rules evaluated before it accumulated at least two improvements, and then it is the
  last entry; it holds the maintenance advisory if and only if no rule triggered, and
  then it is the only entry; the result is never empty. The number of improvements the
  threshold rules accumulate is the number of the four rule groups (pH, EC, organic
  carbon, phosphorus) whose condition holds.
\<close>

theorem C7_green_manure_and_maintenance:
  "(green_manure_improvement \<in> set (get_soil_improvements ph ec oc n p k)
      \<longleftrightarrow> 2 \<le> length (threshold_rules ph ec oc p))
   \<and> (maintenance_improvement \<in> set (get_soil_improvements ph ec oc n p k)
      \<longleftrightarrow> threshold_rules ph ec oc p = [])
   \<and> (2 \<le> length (threshold_rules ph ec oc p) \<longrightarrow>
        get_soil_improvements ph ec oc n p k
          = threshold_rules ph ec oc p @ [green_manure_improvement])
   \<and> (length (threshold_rules ph ec oc p) = 1 \<longrightarrow>
        get_soil_improvements ph ec oc n p k = threshold_rules ph ec oc p)
   \<and> (threshold_rules ph ec oc p = [] \<longrightarrow>
        get_soil_improvements ph ec oc n p k = [maintenance_improvement])
   \<and> get_soil_improvements ph ec oc n p k \<noteq> []
   \<and> length (threshold_rules ph ec oc p) =
       (if ph < 5.5 \<or> 7.5 < ph then 1 else 0)
       + (if \<exists>e. ec = Some e \<and> e \<noteq> 0 \<and> 2.0 < e then 1 else 0)
       + (if \<exists>c. oc = Some c \<and> c < 0.75 then 1 else 0)
       + (if \<exists>v. p = Some v \<and> v < 10 then 1 else 0)"
proof -
  let ?t = "threshold_rules ph ec oc p"
  let ?g = "get_soil_improvements ph ec oc n p k"
  have many: "?g = ?t @ [green_manure_improvement]" if "2 \<le> length ?t"
    using that by (auto simp add: get_soil_improvements_def Let_def)
  have one: "?g = ?t" if "length ?t = 1"
    using that by (auto simp add: get_soil_improvements_def Let_def)
  have none: "?g = [maintenance_improvement]" if "?t = []"
    using that by (simp add: get_soil_improvements_def Let_def)
  consider "?t = []" | "length ?t = 1" | "2 \<le> length ?t"
    by (cases ?t) (auto simp: Suc_le_eq)
  then have main: "(green_manure_improvement \<in> set ?g \<longleftrightarrow> 2 \<le> length ?t)
      \<and> (maintenance_improvement \<in> set ?g \<longleftrightarrow> ?t = [])
      \<and> ?g \<noteq> []"
  proof cases
    case 1
    then show ?thesis
      using none [OF 1] green_ne_maintenance by simp
  next
    case 2
    then have "?t \<noteq> []" by auto
    then show ?thesis
      using one [OF 2] 2 green_not_threshold [of ph ec oc p]
        maintenance_not_threshold [of ph ec oc p] by simp
  next
    case 3
    then have "?t \<noteq> []" by auto
    then show ?thesis
      using many [OF 3] 3 maintenance_not_threshold [of ph ec oc p] green_ne_maintenance
      by simp
  qed
  show ?thesis
    using main many one none threshold_rules_length [of ph ec oc p]
    by (intro conjI impI) simp_all
qed

theorem C7_green_manure_and_maintenance_witness:
  "2 \<le> length (threshold_rules 8.8 (Some 3) None (Some 5))
   \<and> get_soil_improvements 8.8 (Some 3) None None (Some 5) None
       = threshold_rules 8.8 (Some 3) None (Some 5) @ [green_manure_improvement]
   \<and> length (threshold_rules 5 None None None) = 1
   \<and> get_soil_improvements 5 None None None None None = threshold_rules 5 None None None
   \<and> threshold_rules 6.5 None None None = []
   \<and> get_soil_improvements 6.5 None None None None None = [maintenance_improvement]"
proof -
  have a: "2 \<le> length (threshold_rules 8.8 (Some 3) None (Some 5))"
    by (simp add: threshold_rules_length)
  have b: "length (threshold_rules 5 None None None) = 1"
    by (simp add: threshold_rules_length)
  have c: "threshold_rules 6.5 None None None = []"
    by (simp add: threshold_rules_first)
  show ?thesis
    using a b c
      C7_green_manure_and_maintenance [of "8.8" "Some 3" None None "Some 5" None]
      C7_green_manure_and_maintenance [of 5 None None None None None]
      C7_green_manure_and_maintenance [of "6.5" None None None None None]
    by simp
qed

section \<open>Claims about the crop application scheduler\<close>

lemma py_in_iff: "py_in needle hay \<longleftrightarrow> (\<exists>ps ss. hay = ps @ needle @ ss)"
proof (induction hay)
  case Nil
  show ?case by auto
next
  case (Cons c cs)
  show ?case
  proof
    assume "py_in needle (c # cs)"
    then consider "prefix needle (c # cs)" | "py_in needle cs" by auto
    then show "\<exists>ps ss. c # cs = ps @ needle @ ss"
    proof cases
      case 1
      then obtain ss where "c # cs = needle @ ss" by (auto simp: prefix_def)
      then have "c # cs = [] @ needle @ ss" by simp
      then show ?thesis by blast
    next
      case 2
      then obtain ps ss where "cs = ps @ needle @ ss" using Cons.IH by blast
      then have "c # cs = (c # ps) @ needle @ ss" by simp
      then show ?thesis by blast
    qed
  next
    assume "\<exists>ps ss. c # cs = ps @ needle @ ss"
    then obtain ps ss where e: "c # cs = ps @ needle @ ss" by blast
    show "py_in needle (c # cs)"
    proof (cases ps)
      case Nil
      then have "prefix needle (c # cs)" using e by (simp add: prefix_def)
      then show ?thesis by simp
    next
      case (Cons d ds)
      then have "cs = ds @ needle @ ss" using e by simp
      then have "py_in needle cs" using Cons.IH by blast
      then show ?thesis by simp
    qed
  qed
qed

lemma lower_idem: "lower (lower s) = lower s"
proof -
  have "lower_char (lower_char c) = lower_char c" for c
    by (simp add: lower_char_def)
  then show ?thesis by (simp add: lower_def)
qed

text \<open>
  C8. The scheduler looks for the crop keywords as substrings of the lower-cased crop
  name, so the result does not depend on the case of the name, and tries the groups in
  the order rice/paddy, wheat, maize/corn, cotton, sugarcane, potato, tomato: a name gets
  the schedule of the first group one of whose keywords it contains (eight pairwise
  different schedules in all). A name whose lower-case form contains none of the nine
  keywords gets the default schedule, and only such a name can get a schedule different
  from the seven crop schedules. The default schedule has three stages: DAP + MOP at 100
  percent at day 0, then Urea at 50 percent 3-4 weeks and 50 percent 6-7 weeks after
  planting. \<^verbatim>\<open>Basmati Rice\<close> gets the rice schedule, which is not the default one.
\<close>

theorem C8_schedule_dispatch:
  "(\<not> py_in ''rice'' (lower crop) \<and> \<not> py_in ''paddy'' (lower crop)
      \<and> \<not> py_in ''wheat'' (lower crop)
      \<and> \<not> py_in ''maize'' (lower crop) \<and> \<not> py_in ''corn'' (lower crop)
      \<and> \<not> py_in ''cotton'' (lower crop) \<and> \<not> py_in ''sugarcane'' (lower crop)
      \<and> \<not> py_in ''potato'' (lower crop) \<and> \<not> py_in ''tomato'' (lower crop)
      \<longrightarrow> get_application_schedule crop n p k = get_default_schedule)
   \<and> (py_in ''rice'' (lower crop) \<or> py_in ''paddy'' (lower crop)
      \<longrightarrow> get_application_schedule crop n p k = get_rice_schedule)
   \<and> (get_application_schedule crop n p k \<noteq> get_default_schedule
      \<longrightarrow> py_in ''rice'' (lower crop) \<or> py_in ''paddy'' (lower crop)
          \<or> py_in ''wheat'' (lower crop)
          \<or> py_in ''maize'' (lower crop) \<or> py_in ''corn'' (lower crop)
          \<or> py_in ''cotton'' (lower crop) \<or> py_in ''sugarcane'' (lower crop)
          \<or> py_in ''potato'' (lower crop) \<or> py_in ''tomato'' (lower crop))
   \<and> get_application_schedule crop n p k
       \<in> {get_rice_schedule, get_wheat_schedule, get_maize_schedule, get_cotton_schedule,
          get_sugarcane_schedule, get_potato_schedule, get_tomato_schedule,
          get_default_schedule}
   \<and> (lower crop = lower crop' \<longrightarrow>
        get_application_schedule crop n p k = get_application_schedule crop' n p k)
   \<and> get_application_schedule (lower crop) n p k = get_application_schedule crop n p k
   \<and> get_application_schedule ''Basmati Rice'' n p k = get_rice_schedule
   \<and> get_rice_schedule \<noteq> get_default_schedule
   \<and> map stage get_default_schedule
       = [''Basal (At sowing/planting)'', ''First Top Dressing'', ''Second Top Dressing'']
   \<and> map time get_default_schedule
       = [''Day 0'', ''3-4 weeks after planting'', ''6-7 weeks after planting'']
   \<and> map stage_fertilizer get_default_schedule = [''DAP + MOP'', ''Urea'', ''Urea'']
   \<and> map quantity_percent get_default_schedule = [100, 50, 50]
   \<and> (\<not> py_in ''rice'' (lower crop) \<and> \<not> py_in ''paddy'' (lower crop)
      \<and> py_in ''wheat'' (lower crop)
      \<longrightarrow> get_application_schedule crop n p k = get_wheat_schedule)
   \<and> (\<not> py_in ''rice'' (lower crop) \<and> \<not> py_in ''paddy'' (lower crop)
      \<and> \<not> py_in ''wheat'' (lower crop)
      \<and> (py_in ''maize'' (lower crop) \<or> py_in ''corn'' (lower crop))
      \<longrightarrow> get_application_schedule crop n p k = get_maize_schedule)
   \<and> (\<not> py_in ''rice'' (lower crop) \<and> \<not> py_in ''paddy'' (lower crop)
      \<and> \<not> py_in ''wheat'' (lower crop)
      \<and> \<not> py_in ''maize'' (lower crop) \<and> \<not> py_in ''corn'' (lower crop)
      \<and> py_in ''cotton'' (lower crop)
      \<longrightarrow> get_application_schedule crop n p k = get_cotton_schedule)
   \<and> (\<not> py_in ''rice'' (lower crop) \<and> \<not> py_in ''paddy'' (lower crop)
      \<and> \<not> py_in ''wheat'' (lower crop)
      \<and> \<not> py_in ''maize'' (lower crop) \<and> \<not> py_in ''corn'' (lower crop)
      \<and> \<not> py_in ''cotton'' (lower crop) \<and> py_in ''sugarcane'' (lower crop)
      \<longrightarrow> get_application_schedule crop n p k = get_sugarcane_schedule)
   \<and> (\<not> py_in ''rice'' (lower crop) \<and> \<not> py_in ''paddy'' (lower crop)
      \<and> \<not> py_in ''wheat'' (lower crop)
      \<and> \<not> py_in ''maize'' (lower crop) \<and> \<not> py_in ''corn'' (lower crop)
      \<and> \<not> py_in ''cotton'' (lower crop) \<and> \<not> py_in ''sugarcane'' (lower crop)
      \<and> py_in ''potato'' (lower crop)
      \<longrightarrow> get_application_schedule crop n p k = get_potato_schedule)
   \<and> (\<not> py_in ''rice'' (lower crop) \<and> \<not> py_in ''paddy'' (lower crop)
      \<and> \<not> py_in ''wheat'' (lower crop)
      \<and> \<not> py_in ''maize'' (lower crop) \<and> \<not> py_in ''corn'' (lower crop)
      \<and> \<not> py_in ''cotton'' (lower crop) \<and> \<not> py_in ''sugarcane'' (lower crop)
      \<and> \<not> py_in ''potato'' (lower crop) \<and> py_in ''tomato'' (lower crop)
      \<longrightarrow> get_application_schedule crop n p k = get_tomato_schedule)
   \<and> distinct [get_rice_schedule, get_wheat_schedule, get_maize_schedule,
        get_cotton_schedule, get_sugarcane_schedule, get_potato_schedule,
        get_tomato_schedule, get_default_schedule]"
proof -
  let ?lc = "lower crop"
  have wheat: "\<not> py_in ''rice'' ?lc \<and> \<not> py_in ''paddy'' ?lc \<and> py_in ''wheat'' ?lc
      \<longrightarrow> get_application_schedule crop n p k = get_wheat_schedule"
    by (simp add: get_application_schedule_def Let_def)
  have maize: "\<not> py_in ''rice'' ?lc \<and> \<not> py_in ''paddy'' ?lc \<and> \<not> py_in ''wheat'' ?lc
      \<and> (py_in ''maize'' ?lc \<or> py_in ''corn'' ?lc)
      \<longrightarrow> get_application_schedule crop n p k = get_maize_schedule"
    by (simp add: get_application_schedule_def Let_def)
  have cotton: "\<not> py_in ''rice'' ?lc \<and> \<not> py_in ''paddy'' ?lc \<and> \<not> py_in ''wheat'' ?lc
      \<and> \<not> py_in ''maize'' ?lc \<and> \<not> py_in ''corn'' ?lc \<and> py_in ''cotton'' ?lc
      \<longrightarrow> get_application_schedule crop n p k = get_cotton_schedule"
    by (simp add: get_application_schedule_def Let_def)
  have sugarcane: "\<not> py_in ''rice'' ?lc \<and> \<not> py_in ''paddy'' ?lc \<and> \<not> py_in ''wheat'' ?lc
      \<and> \<not> py_in ''maize'' ?lc \<and> \<not> py_in ''corn'' ?lc
      \<and> \<not> py_in ''cotton'' ?lc \<and> py_in ''sugarcane'' ?lc
      \<longrightarrow> get_application_schedule crop n p k = get_sugarcane_schedule"
    by (simp add: get_application_schedule_def Let_def)
  have potato: "\<not> py_in ''rice'' ?lc \<and> \<not> py_in ''paddy'' ?lc \<and> \<not> py_in ''wheat'' ?lc
      \<and> \<not> py_in ''maize'' ?lc \<and> \<not> py_in ''corn'' ?lc
      \<and> \<not> py_in ''cotton'' ?lc \<and> \<not> py_in ''sugarcane'' ?lc
      \<and> py_in ''potato'' ?lc
      \<longrightarrow> get_application_schedule crop n p k = get_potato_schedule"
    by (simp add: get_application_schedule_def Let_def)
  have tomato: "\<not> py_in ''rice'' ?lc \<and> \<not> py_in ''paddy'' ?lc \<and> \<not> py_in ''wheat'' ?lc
      \<and> \<not> py_in ''maize'' ?lc \<and> \<not> py_in ''corn'' ?lc
      \<and> \<not> py_in ''cotton'' ?lc \<and> \<not> py_in ''sugarcane'' ?lc
      \<and> \<not> py_in ''potato'' ?lc \<and> py_in ''tomato'' ?lc
      \<longrightarrow> get_application_schedule crop n p k = get_tomato_schedule"
    by (simp add: get_application_schedule_def Let_def)
  have dist: "distinct [get_rice_schedule, get_wheat_schedule, get_maize_schedule,
        get_cotton_schedule, get_sugarcane_schedule, get_potato_schedule,
        get_tomato_schedule, get_default_schedule]"
    by (simp add: get_rice_schedule_def get_wheat_schedule_def get_maize_schedule_def
          get_cotton_schedule_def get_sugarcane_schedule_def get_potato_schedule_def
          get_tomato_schedule_def get_default_schedule_def)
  have none: "get_application_schedule crop n p k = get_default_schedule"
    if "\<not> py_in ''rice'' ?lc \<and> \<not> py_in ''paddy'' ?lc \<and> \<not> py_in ''wheat'' ?lc
        \<and> \<not> py_in ''maize'' ?lc \<and> \<not> py_in ''corn'' ?lc
        \<and> \<not> py_in ''cotton'' ?lc \<and> \<not> py_in ''sugarcane'' ?lc
        \<and> \<not> py_in ''potato'' ?lc \<and> \<not> py_in ''tomato'' ?lc"
    using that by (simp add: get_application_schedule_def Let_def)
  have rice: "get_application_schedule crop n p k = get_rice_schedule"
    if "py_in ''rice'' ?lc \<or> py_in ''paddy'' ?lc"
    using that by (simp add: get_application_schedule_def Let_def)
  have conv: "py_in ''rice'' ?lc \<or> py_in ''paddy'' ?lc \<or> py_in ''wheat'' ?lc
          \<or> py_in ''maize'' ?lc \<or> py_in ''corn'' ?lc
          \<or> py_in ''cotton'' ?lc \<or> py_in ''sugarcane'' ?lc
          \<or> py_in ''potato'' ?lc \<or> py_in ''tomato'' ?lc"
    if "get_application_schedule crop n p k \<noteq> get_default_schedule"
    using that none by blast
  have mem: "get_application_schedule crop n p k
       \<in> {get_rice_schedule, get_wheat_schedule, get_maize_schedule, get_cotton_schedule,
          get_sugarcane_schedule, get_potato_schedule, get_tomato_schedule,
          get_default_schedule}"
  proof -
    have branch: "(if c then x else y) \<in> S" if "x \<in> S" and "y \<in> S"
      for c and x y :: "ApplicationStage list" and S
      using that by simp
    show ?thesis
      unfolding get_application_schedule_def Let_def by (intro branch) simp_all
  qed
  have ci: "get_application_schedule crop n p k = get_application_schedule crop' n p k"
    if "lower crop = lower crop'"
    unfolding get_application_schedule_def Let_def that ..
  have low: "get_application_schedule (lower crop) n p k = get_application_schedule crop n p k"
    unfolding get_application_schedule_def Let_def lower_idem ..
  have basmati: "get_application_schedule ''Basmati Rice'' n p k = get_rice_schedule"
    by (simp add: get_application_schedule_def lower_def lower_char_def Let_def)
  have ne: "get_rice_schedule \<noteq> get_default_schedule"
    by (simp add: get_rice_schedule_def get_default_schedule_def)
  have dflt: "map stage get_default_schedule
       = [''Basal (At sowing/planting)'', ''First Top Dressing'', ''Second Top Dressing'']"
     "map time get_default_schedule
       = [''Day 0'', ''3-4 weeks after planting'', ''6-7 weeks after planting'']"
     "map stage_fertilizer get_default_schedule = [''DAP + MOP'', ''Urea'', ''Urea'']"
     "map quantity_percent get_default_schedule = [100, 50, 50]"
    by (simp_all add: get_default_schedule_def)
  have none': "\<not> py_in ''rice'' ?lc \<and> \<not> py_in ''paddy'' ?lc \<and> \<not> py_in ''wheat'' ?lc
        \<and> \<not> py_in ''maize'' ?lc \<and> \<not> py_in ''corn'' ?lc
        \<and> \<not> py_in ''cotton'' ?lc \<and> \<not> py_in ''sugarcane'' ?lc
        \<and> \<not> py_in ''potato'' ?lc \<and> \<not> py_in ''tomato'' ?lc
      \<longrightarrow> get_application_schedule crop n p k = get_default_schedule"
    using none by blast
  have rice': "py_in ''rice'' ?lc \<or> py_in ''paddy'' ?lc
      \<longrightarrow> get_application_schedule crop n p k = get_rice_schedule"
    using rice by blast
  have conv': "get_application_schedule crop n p k \<noteq> get_default_schedule
      \<longrightarrow> py_in ''rice'' ?lc \<or> py_in ''paddy'' ?lc \<or> py_in ''wheat'' ?lc
          \<or> py_in ''maize'' ?lc \<or> py_in ''corn'' ?lc
          \<or> py_in ''cotton'' ?lc \<or> py_in ''sugarcane'' ?lc
          \<or> py_in ''potato'' ?lc \<or> py_in ''tomato'' ?lc"
    using conv by blast
  have ci': "lower crop = lower crop' \<longrightarrow>
        get_application_schedule crop n p k = get_application_schedule crop' n p k"
    using ci by blast
  from none' rice' conv' mem ci' low basmati ne dflt wheat maize cotton sugarcane potato
    tomato dist
  show ?thesis
    by (intro conjI)
qed

theorem C8_schedule_dispatch_witness:
  "\<not> py_in ''rice'' (lower ''Jute'') \<and> \<not> py_in ''paddy'' (lower ''Jute'')
      \<and> \<not> py_in ''wheat'' (lower ''Jute'')
      \<and> \<not> py_in ''maize'' (lower ''Jute'') \<and> \<not> py_in ''corn'' (lower ''Jute'')
      \<and> \<not> py_in ''cotton'' (lower ''Jute'') \<and> \<not> py_in ''sugarcane'' (lower ''Jute'')
      \<and> \<not> py_in ''potato'' (lower ''Jute'') \<and> \<not> py_in ''tomato'' (lower ''Jute'')
   \<and> get_application_schedule ''Jute'' 120 60 30 = get_default_schedule
   \<and> py_in ''paddy'' (lower ''PADDY (kharif)'')
   \<and> get_application_schedule ''PADDY (kharif)'' 120 60 30 = get_rice_schedule
   \<and> lower ''RICE'' = lower ''rice''
   \<and> get_application_schedule ''RICE'' 120 60 30 = get_application_schedule ''rice'' 120 60 30
   \<and> \<not> py_in ''rice'' (lower ''Winter Wheat'')
      \<and> \<not> py_in ''paddy'' (lower ''Winter Wheat'')
      \<and> py_in ''wheat'' (lower ''Winter Wheat'')
   \<and> get_application_schedule ''Winter Wheat'' 120 60 30 = get_wheat_schedule
   \<and> \<not> py_in ''rice'' (lower ''Sweet Corn'')
      \<and> \<not> py_in ''paddy'' (lower ''Sweet Corn'')
      \<and> \<not> py_in ''wheat'' (lower ''Sweet Corn'')
      \<and> (py_in ''maize'' (lower ''Sweet Corn'') \<or> py_in ''corn'' (lower ''Sweet Corn''))
   \<and> get_application_schedule ''Sweet Corn'' 120 60 30 = get_maize_schedule
   \<and> \<not> py_in ''rice'' (lower ''Bt Cotton'')
      \<and> \<not> py_in ''paddy'' (lower ''Bt Cotton'')
      \<and> \<not> py_in ''wheat'' (lower ''Bt Cotton'')
      \<and> \<not> py_in ''maize'' (lower ''Bt Cotton'')
      \<and> \<not> py_in ''corn'' (lower ''Bt Cotton'')
      \<and> py_in ''cotton'' (lower ''Bt Cotton'')
   \<and> get_application_schedule ''Bt Cotton'' 120 60 30 = get_cotton_schedule
   \<and> \<not> py_in ''rice'' (lower ''Sugarcane'')
      \<and> \<not> py_in ''paddy'' (lower ''Sugarcane'')
      \<and> \<not> py_in ''wheat'' (lower ''Sugarcane'')
      \<and> \<not> py_in ''maize'' (lower ''Sugarcane'')
      \<and> \<not> py_in ''corn'' (lower ''Sugarcane'')
      \<and> \<not> py_in ''cotton'' (lower ''Sugarcane'')
      \<and> py_in ''sugarcane'' (lower ''Sugarcane'')
   \<and> get_application_schedule ''Sugarcane'' 120 60 30 = get_sugarcane_schedule
   \<and> \<not> py_in ''rice'' (lower ''Potato'')
      \<and> \<not> py_in ''paddy'' (lower ''Potato'')
      \<and> \<not> py_in ''wheat'' (lower ''Potato'')
      \<and> \<not> py_in ''maize'' (lower ''Potato'')
      \<and> \<not> py_in ''corn'' (lower ''Potato'')
      \<and> \<not> py_in ''cotton'' (lower ''Potato'')
      \<and> \<not> py_in ''sugarcane'' (lower ''Potato'')
      \<and> py_in ''potato'' (lower ''Potato'')
   \<and> get_application_schedule ''Potato'' 120 60 30 = get_potato_schedule
   \<and> \<not> py_in ''rice'' (lower ''Cherry Tomato'')
      \<and> \<not> py_in ''paddy'' (lower ''Cherry Tomato'')
      \<and> \<not> py_in ''wheat'' (lower ''Cherry Tomato'')
      \<and> \<not> py_in ''maize'' (lower ''Cherry Tomato'')
      \<and> \<not> py_in ''corn'' (lower ''Cherry Tomato'')
      \<and> \<not> py_in ''cotton'' (lower ''Cherry Tomato'')
      \<and> \<not> py_in ''sugarcane'' (lower ''Cherry Tomato'')
      \<and> \<not> py_in ''potato'' (lower ''Cherry Tomato'')
      \<and> py_in ''tomato'' (lower ''Cherry Tomato'')
   \<and> get_application_schedule ''Cherry Tomato'' 120 60 30 = get_tomato_schedule"
proof -
  have a: "\<not> py_in ''rice'' (lower ''Jute'') \<and> \<not> py_in ''paddy'' (lower ''Jute'')
      \<and> \<not> py_in ''wheat'' (lower ''Jute'')
      \<and> \<not> py_in ''maize'' (lower ''Jute'') \<and> \<not> py_in ''corn'' (lower ''Jute'')
      \<and> \<not> py_in ''cotton'' (lower ''Jute'') \<and> \<not> py_in ''sugarcane'' (lower ''Jute'')
      \<and> \<not> py_in ''potato'' (lower ''Jute'') \<and> \<not> py_in ''tomato'' (lower ''Jute'')"
    by (simp add: lower_def lower_char_def)
  have b: "py_in ''paddy'' (lower ''PADDY (kharif)'')"
    by (simp add: lower_def lower_char_def)
  have c: "lower ''RICE'' = lower ''rice''"
    by (simp add: lower_def lower_char_def)
  have b': "py_in ''rice'' (lower ''PADDY (kharif)'') \<or> py_in ''paddy'' (lower ''PADDY (kharif)'')"
    using b by (rule disjI2)
  have j: "get_application_schedule ''Jute'' 120 60 30 = get_default_schedule"
    by (rule mp [OF conjunct1 [OF C8_schedule_dispatch [of "''Jute''" 120 60 30 "''Jute''"]] a])
  have r: "get_application_schedule ''PADDY (kharif)'' 120 60 30 = get_rice_schedule"
    by (rule mp [OF conjunct1 [OF conjunct2
          [OF C8_schedule_dispatch [of "''PADDY (kharif)''" 120 60 30 "''Jute''"]]] b'])
  have i: "get_application_schedule ''RICE'' 120 60 30
             = get_application_schedule ''rice'' 120 60 30"
    by (rule mp [OF conjunct1 [OF conjunct2 [OF conjunct2 [OF conjunct2 [OF conjunct2
          [OF C8_schedule_dispatch [of "''RICE''" 120 60 30 "''rice''"]]]]]] c])
  have h_wheat: "\<not> py_in ''rice'' (lower ''Winter Wheat'')
      \<and> \<not> py_in ''paddy'' (lower ''Winter Wheat'')
      \<and> py_in ''wheat'' (lower ''Winter Wheat'')"
    by (simp add: lower_def lower_char_def)
  have s_wheat: "get_application_schedule ''Winter Wheat'' 120 60 30 = get_wheat_schedule"
    by (rule mp [OF C8_schedule_dispatch [of "''Winter Wheat''" 120 60 30 "''Jute''", THEN conjunct2, THEN conjunct2, THEN conjunct2, THEN conjunct2, THEN conjunct2, THEN conjunct2, THEN conjunct2, THEN conjunct2, THEN conjunct2, THEN conjunct2, THEN conjunct2, THEN conjunct2, THEN conjunct1] h_wheat])
  have h_maize: "\<not> py_in ''rice'' (lower ''Sweet Corn'')
      \<and> \<not> py_in ''paddy'' (lower ''Sweet Corn'')
      \<and> \<not> py_in ''wheat'' (lower ''Sweet Corn'')
      \<and> (py_in ''maize'' (lower ''Sweet Corn'') \<or> py_in ''corn'' (lower ''Sweet Corn''))"
    by (simp add: lower_def lower_char_def)
  have s_maize: "get_application_schedule ''Sweet Corn'' 120 60 30 = get_maize_schedule"
    by (rule mp [OF C8_schedule_dispatch [of "''Sweet Corn''" 120 60 30 "''Jute''", THEN conjunct2, THEN conjunct2, THEN conjunct2, THEN conjunct2, THEN conjunct2, THEN conjunct2, THEN conjunct2, THEN conjunct2, THEN conjunct2, THEN conjunct2, THEN conjunct2, THEN conjunct2, THEN conjunct2, THEN conjunct1] h_maize])
  have h_cotton: "\<not> py_in ''rice'' (lower ''Bt Cotton'')
      \<and> \<not> py_in ''paddy'' (lower ''Bt Cotton'')
      \<and> \<not> py_in ''wheat'' (lower ''Bt Cotton'')
      \<and> \<not> py_in ''maize'' (lower ''Bt Cotton'')
      \<and> \<not> py_in ''corn'' (lower ''Bt Cotton'')
      \<and> py_in ''cotton'' (lower ''Bt Cotton'')"
    by (simp add: lower_def lower_char_def)
  have s_cotton: "get_application_schedule ''Bt Cotton'' 120 60 30 = get_cotton_schedule"
    by (rule mp [OF C8_schedule_dispatch [of "''Bt Cotton''" 120 60 30 "''Jute''", THEN conjunct2, THEN conjunct2, THEN conjunct2, THEN conjunct2, THEN conjunct2, THEN conjunct2, THEN conjunct2, THEN conjunct2, THEN conjunct2, THEN conjunct2, THEN conjunct2, THEN conjunct2, THEN conjunct2, THEN conjunct2, THEN conjunct1] h_cotton])
  have h_sugarcane: "\<not> py_in ''rice'' (lower ''Sugarcane'')
      \<and> \<not> py_in ''paddy'' (lower ''Sugarcane'')
      \<and> \<not> py_in ''wheat'' (lower ''Sugarcane'')
      \<and> \<not> py_in ''maize'' (lower ''Sugarcane'')
      \<and> \<not> py_in ''corn'' (lower ''Sugarcane'')
      \<and> \<not> py_in ''cotton'' (lower ''Sugarcane'')
      \<and> py_in ''sugarcane'' (lower ''Sugarcane'')"
    by (simp add: lower_def lower_char_def)
  have s_sugarcane: "get_application_schedule ''Sugarcane'' 120 60 30 = get_sugarcane_schedule"
    by (rule mp [OF C8_schedule_dispatch [of "''Sugarcane''" 120 60 30 "''Jute''", THEN conjunct2, THEN conjunct2, THEN conjunct2, THEN conjunct2, THEN conjunct2, THEN conjunct2, THEN conjunct2, THEN conjunct2, THEN conjunct2, THEN conjunct2, THEN conjunct2, THEN conjunct2, THEN conjunct2, THEN conjunct2, THEN conjunct2, THEN conjunct1] h_sugarcane])
  have h_potato: "\<not> py_in ''rice'' (lower ''Potato'')
      \<and> \<not> py_in ''paddy'' (lower ''Potato'')
      \<and> \<not> py_in ''wheat'' (lower ''Potato'')
      \<and> \<not> py_in ''maize'' (lower ''Potato'')
      \<and> \<not> py_in ''corn'' (lower ''Potato'')
      \<and> \<not> py_in ''cotton'' (lower ''Potato'')
      \<and> \<not> py_in ''sugarcane'' (lower ''Potato'')
      \<and> py_in ''potato'' (lower ''Potato'')"
    by (simp add: lower_def lower_char_def)
  have s_potato: "get_application_schedule ''Potato'' 120 60 30 = get_potato_schedule"
    by (rule mp [OF C8_schedule_dispatch [of "''Potato''" 120 60 30 "''Jute''", THEN conjunct2, THEN conjunct2, THEN conjunct2, THEN conjunct2, THEN conjunct2, THEN conjunct2, THEN conjunct2, THEN conjunct2, THEN conjunct2, THEN conjunct2, THEN conjunct2, THEN conjunct2, THEN conjunct2, THEN conjunct2, THEN conjunct2, THEN conjunct2, THEN conjunct1] h_potato])
  have h_tomato: "\<not> py_in ''rice'' (lower ''Cherry Tomato'')
      \<and> \<not> py_in ''paddy'' (lower ''Cherry Tomato'')
      \<and> \<not> py_in ''wheat'' (lower ''Cherry Tomato'')
      \<and> \<not> py_in ''maize'' (lower ''Cherry Tomato'')
      \<and> \<not> py_in ''corn'' (lower ''Cherry Tomato'')
      \<and> \<not> py_in ''cotton'' (lower ''Cherry Tomato'')
      \<and> \<not> py_in ''sugarcane'' (lower ''Cherry Tomato'')
      \<and> \<not> py_in ''potato'' (lower ''Cherry Tomato'')
      \<and> py_in ''tomato'' (lower ''Cherry Tomato'')"
    by (simp add: lower_def lower_char_def)
  have s_tomato: "get_application_schedule ''Cherry Tomato'' 120 60 30 = get_tomato_schedule"
    by (rule mp [OF C8_schedule_dispatch [of "''Cherry Tomato''" 120 60 30 "''Jute''", THEN conjunct2, THEN conjunct2, THEN conjunct2, THEN conjunct2, THEN conjunct2, THEN conjunct2, THEN conjunct2, THEN conjunct2, THEN conjunct2, THEN conjunct2, THEN conjunct2, THEN conjunct2, THEN conjunct2, THEN conjunct2, THEN conjunct2, THEN conjunct2, THEN conjunct2, THEN conjunct1] h_tomato])
  from a j b r c i h_wheat s_wheat h_maize s_maize h_cotton s_cotton
    h_sugarcane s_sugarcane h_potato s_potato h_tomato s_tomato show ?thesis
    by simp
qed

text \<open>
  C9. For every crop name, the schedule returned is the same whatever \<open>total_n\<close>,
  \<open>total_p\<close> and \<open>total_k\<close> are.
\<close>

theorem C9_schedule_independent_of_totals:
  "get_application_schedule crop total_n total_p total_k
     = get_application_schedule crop total_n' total_p' total_k'"
  by (simp add: get_application_schedule_def)

end
